theory Spec2Isabelle
  imports Complex_Main "HOL-Library.List_Lexorder" "HOL-Library.Char_ord"
begin

section \<open>The labeling toolbox: data model\<close>

text \<open>
  Source: \<^verbatim>\<open>deeplabcut/generate_training_dataset/labeling_toolbox.py\<close>, class
  \<^verbatim>\<open>MainFrame\<close>, for a session started with \<^verbatim>\<open>show()\<close>, where
  \<^verbatim>\<open>self.verify\<close> is False.

  The attributes of \<^verbatim>\<open>MainFrame\<close> that hold annotation data, the position in the
  frame sequence and the files on disk are the fields of the record \<open>state\<close>. Each
  method is a function from a state to an \<open>outcome\<close>: either it returns, or it raises,
  and in both cases the state reached is kept, since an exception does not undo the
  assignments made before it.

  Not modelled: the widgets, the matplotlib figure, colours, zoom and pan, the status
  bar, and the attributes that are written and never read
  (\<^verbatim>\<open>previous_image_points\<close>, \<^verbatim>\<open>points\<close>, \<^verbatim>\<open>num\<close>, \<^verbatim>\<open>file\<close>,
  \<^verbatim>\<open>newimages\<close>, \<^verbatim>\<open>new_bodyparts\<close>).
\<close>

subsection \<open>Values, errors, the table\<close>

text \<open>
  A coordinate is a float or unset. NaN in the table and \<^verbatim>\<open>None\<close> in a coordinate
  list are both \<open>None\<close> here: assigning \<^verbatim>\<open>None\<close> into a float column stores NaN.
\<close>

type_synonym val = "real option"

datatype error = IndexError | KeyError | ValueError | TypeError | AttributeError | OSError | NotImplementedError

text \<open>A column label of the table: (scorer, bodyparts, coords).\<close>

type_synonym column = "string \<times> string \<times> string"

text \<open>
  The pandas DataFrame \<^verbatim>\<open>self.dataFrame\<close>: row labels in order, column labels in
  order, and the cell of each (row label, column label). Labels that occur twice share
  their cell. \<^verbatim>\<open>self.dataFrame = None\<close> (before loading) is the table with no row
  and no column, which \<^verbatim>\<open>pd.concat\<close> treats alike.
\<close>

record dataframe =
  df_index :: "string list"
  df_columns :: "column list"
  df_values :: "string \<Rightarrow> column \<Rightarrow> val"

text \<open>
  One element of a coordinate list \<^verbatim>\<open>[x, y, bp, bpindex]\<close>. A coordinate list
  (\<^verbatim>\<open>dr.coords\<close>, an element of \<^verbatim>\<open>self.updatedCoords\<close>) is a list of them: the
  code reads the bodypart name from the first (\<^verbatim>\<open>bp[0][-2]\<close>) and the position from
  the last (\<^verbatim>\<open>bp[-1][0]\<close>, \<^verbatim>\<open>bp[-1][1]\<close>).
\<close>

record entry =
  ex :: val
  ey :: val
  ename :: string
  eidx :: nat

datatype node = Dir | Image | Table dataframe | NoTable

datatype platform = Linux | Win32 | Darwin | Other

datatype message = MessageBox string string | Print string

record state =
  index :: "string list"
  relativeimagenames :: "string list"
  iter :: nat
  img :: string
  dir :: string
  currentDirectory :: string
  imtypes :: "string list"
  scorer :: string
  bodyparts :: "string list"
  dataFrame :: dataframe
  updatedCoords :: "entry list list"
  drs :: "string list"
  buttonCounter :: "nat list"
  rdb :: nat
  next_enabled :: bool
  prev_enabled :: bool
  closed :: bool
  messages :: "message list"
  files :: "string \<rightharpoonup> node"
  platform :: platform

text \<open>
  \<open>drs\<close> holds one point handle (DraggablePoint) per element, by the bodypart it is
  bound to; the handle's \<^verbatim>\<open>coords\<close> is the element of \<open>updatedCoords\<close> at the same
  position (both lists are reset together in \<^verbatim>\<open>plot\<close> and appended together in
  \<^verbatim>\<open>plot\<close> and \<^verbatim>\<open>onClick\<close>). \<open>rdb\<close> is the radio box's selection, \<open>closed\<close>
  records \<^verbatim>\<open>self.Close(True)\<close>, \<open>messages\<close> the message boxes and prints, \<open>files\<close>
  the file system and \<open>platform\<close> the value of \<^verbatim>\<open>sys.platform\<close>.
\<close>

datatype outcome = Returns state | Raises error state

fun final :: "outcome \<Rightarrow> state" where
  "final (Returns s) = s"
| "final (Raises e s) = s"

fun returned :: "outcome \<Rightarrow> bool" where
  "returned (Returns s) = True"
| "returned (Raises e s) = False"

fun andThen :: "outcome \<Rightarrow> (state \<Rightarrow> outcome) \<Rightarrow> outcome" where
  "andThen (Returns s) f = f s"
| "andThen (Raises e s) f = Raises e s"

fun for_each :: "('a \<Rightarrow> state \<Rightarrow> outcome) \<Rightarrow> 'a list \<Rightarrow> state \<Rightarrow> outcome" where
  "for_each f [] s = Returns s"
| "for_each f (x # xs) s = andThen (f x s) (for_each f xs)"

subsection \<open>Reading and writing cells\<close>

text \<open>
  \<^verbatim>\<open>self.dataFrame[sc][bp][co].values[pos]\<close>: the column is selected by label (KeyError
  when absent), the row by position (IndexError when out of range). A label that occurs
  more than once selects one value per occurrence in pandas, and \<^verbatim>\<open>plot\<close> then
  fails in its test \<^verbatim>\<open>np.isnan(self.points)[0] == False\<close>; here the read itself
  raises ValueError.
\<close>

definition read_value :: "dataframe \<Rightarrow> string \<Rightarrow> string \<Rightarrow> string \<Rightarrow> nat \<Rightarrow> error + val" where
  "read_value df sc bp co pos =
     (if (sc, bp, co) \<notin> set (df_columns df) then Inl KeyError
      else if count_list (df_columns df) (sc, bp, co) \<noteq> 1 then Inl ValueError
      else if length (df_index df) \<le> pos then Inl IndexError
      else Inr (df_values df (df_index df ! pos) (sc, bp, co)))"

text \<open>
  \<^verbatim>\<open>self.dataFrame.loc[r][c] = v\<close>: the row selected by label is a view of the table
  (one block of floats), so the assignment reaches the table.
\<close>

definition set_value :: "dataframe \<Rightarrow> string \<Rightarrow> column \<Rightarrow> val \<Rightarrow> dataframe" where
  "set_value df r c v = df\<lparr>df_values := (df_values df)(r := (df_values df r)(c := v))\<rparr>"

subsection \<open>getLabels, plot\<close>

text \<open>
  \<^verbatim>\<open>getLabels(self, img_index)\<close>: the loop over \<^verbatim>\<open>enumerate(self.bodyparts)\<close>. The
  row read is \<^verbatim>\<open>self.iter\<close>; the parameter \<^verbatim>\<open>img_index\<close> is not used by the body.
\<close>

fun getLabels_loop :: "state \<Rightarrow> nat \<Rightarrow> string list \<Rightarrow> error + entry list list" where
  "getLabels_loop s bpindex [] = Inr []"
| "getLabels_loop s bpindex (bp # bps) =
     (case read_value (dataFrame s) (scorer s) bp ''x'' (iter s) of
        Inl e \<Rightarrow> Inl e
      | Inr x \<Rightarrow>
     (case read_value (dataFrame s) (scorer s) bp ''y'' (iter s) of
        Inl e \<Rightarrow> Inl e
      | Inr y \<Rightarrow>
     (case getLabels_loop s (Suc bpindex) bps of
        Inl e \<Rightarrow> Inl e
      | Inr rest \<Rightarrow> Inr ([\<lparr>ex = x, ey = y, ename = bp, eidx = bpindex\<rparr>] # rest))))"

definition getLabels :: "state \<Rightarrow> nat \<Rightarrow> error + entry list list" where
  "getLabels s img_index = getLabels_loop s 0 (bodyparts s)"

text \<open>
  \<^verbatim>\<open>ImagePanel.drawplot\<close> reads the image with \<^verbatim>\<open>cv2.imread(img)[..., ::-1]\<close>, which
  fails with TypeError when the file cannot be read; the drawing itself is not modelled.
\<close>

definition drawplot :: "state \<Rightarrow> outcome" where
  "drawplot s = (case files s (img s) of Some Image \<Rightarrow> Returns s | _ \<Rightarrow> Raises TypeError s)"

text \<open>\<^verbatim>\<open>plot\<close>: one handle and one coordinate list per bodypart, from the row \<^verbatim>\<open>self.iter\<close>.\<close>

fun plot_loop :: "nat \<Rightarrow> string list \<Rightarrow> state \<Rightarrow> outcome" where
  "plot_loop bpindex [] s = Returns s"
| "plot_loop bpindex (bp # bps) s =
     (case read_value (dataFrame s) (scorer s) bp ''x'' (iter s) of
        Inl e \<Rightarrow> Raises e s
      | Inr x \<Rightarrow>
     (case read_value (dataFrame s) (scorer s) bp ''y'' (iter s) of
        Inl e \<Rightarrow> Raises e s
      | Inr y \<Rightarrow>
     (case getLabels s (iter s) of
        Inl e \<Rightarrow> Raises e s
      | Inr labels \<Rightarrow>
         (if length labels \<le> bpindex then Raises IndexError s
          else plot_loop (Suc bpindex) bps
                 (s\<lparr>drs := drs s @ [bp],
                    updatedCoords := updatedCoords s @ [labels ! bpindex],
                    buttonCounter := (if x = None then buttonCounter s
                                      else buttonCounter s @ [bpindex])\<rparr>)))))"

definition plot :: "state \<Rightarrow> outcome" where
  "plot s = plot_loop 0 (bodyparts s) (s\<lparr>drs := [], updatedCoords := []\<rparr>)"

subsection \<open>saveEachImage, ResetEachImage\<close>

text \<open>
  One round of the loop of \<^verbatim>\<open>saveEachImage\<close>, for the coordinate list \<open>bp\<close>: two
  assignments, each evaluating its right-hand side \<^verbatim>\<open>bp[-1][..]\<close>, then the row
  \<^verbatim>\<open>self.dataFrame.loc[self.relativeimagenames[self.iter]]\<close>, then the key with
  \<^verbatim>\<open>bp[0][-2]\<close>. A key absent from the row is KeyError here.
\<close>

definition save_point :: "entry list \<Rightarrow> state \<Rightarrow> outcome" where
  "save_point bp s =
     (if bp = [] then Raises IndexError s
      else if length (relativeimagenames s) \<le> iter s then Raises IndexError s
      else if relativeimagenames s ! iter s \<notin> set (df_index (dataFrame s)) then Raises KeyError s
      else if (scorer s, ename (hd bp), ''x'') \<notin> set (df_columns (dataFrame s)) then Raises KeyError s
      else
        (let s1 = s\<lparr>dataFrame := set_value (dataFrame s) (relativeimagenames s ! iter s)
                                     (scorer s, ename (hd bp), ''x'') (ex (last bp))\<rparr>
         in if (scorer s, ename (hd bp), ''y'') \<notin> set (df_columns (dataFrame s)) then Raises KeyError s1
            else Returns (s1\<lparr>dataFrame := set_value (dataFrame s1) (relativeimagenames s ! iter s)
                                     (scorer s, ename (hd bp), ''y'') (ey (last bp))\<rparr>)))"

definition saveEachImage :: "state \<Rightarrow> outcome" where
  "saveEachImage s = for_each save_point (updatedCoords s) s"

text \<open>\<^verbatim>\<open>ResetEachImage\<close>: the same loop, assigning \<^verbatim>\<open>None\<close>.\<close>

definition reset_point :: "entry list \<Rightarrow> state \<Rightarrow> outcome" where
  "reset_point bp s =
     (if length (relativeimagenames s) \<le> iter s then Raises IndexError s
      else if relativeimagenames s ! iter s \<notin> set (df_index (dataFrame s)) then Raises KeyError s
      else if bp = [] then Raises IndexError s
      else if (scorer s, ename (hd bp), ''x'') \<notin> set (df_columns (dataFrame s)) then Raises KeyError s
      else
        (let s1 = s\<lparr>dataFrame := set_value (dataFrame s) (relativeimagenames s ! iter s)
                                     (scorer s, ename (hd bp), ''x'') None\<rparr>
         in if (scorer s, ename (hd bp), ''y'') \<notin> set (df_columns (dataFrame s)) then Raises KeyError s1
            else Returns (s1\<lparr>dataFrame := set_value (dataFrame s1) (relativeimagenames s ! iter s)
                                     (scorer s, ename (hd bp), ''y'') None\<rparr>)))"

definition ResetEachImage :: "state \<Rightarrow> outcome" where
  "ResetEachImage s = for_each reset_point (updatedCoords s) s"

subsection \<open>onClick\<close>

record event =
  button :: nat
  xdata :: val
  ydata :: val

definition already_annotated :: "string \<Rightarrow> message" where
  "already_annotated bp =
     MessageBox (bp @ '' is already annotated. '' @ [CHR 0x0A] @ '' Select another body part to annotate.'')
                ''Error!''"

text \<open>
  \<^verbatim>\<open>onClick\<close>: a right click (\<^verbatim>\<open>event.button == 3\<close>) on a selection already in
  \<^verbatim>\<open>self.buttonCounter\<close> opens the message box; otherwise it creates the handle with
  its coordinate list and moves the selection one further when it is not the last.
  For a click outside the axes \<^verbatim>\<open>event.xdata\<close> and \<^verbatim>\<open>event.ydata\<close> are None, and
  \<^verbatim>\<open>self.axes.add_patch(circle[0])\<close> raises TypeError before anything is appended.
\<close>

definition onClick :: "event \<Rightarrow> state \<Rightarrow> outcome" where
  "onClick ev s =
     (if button ev = 3 then
        (if rdb s \<in> set (buttonCounter s) then
           (if length (bodyparts s) \<le> rdb s then Raises IndexError s
            else Returns (s\<lparr>messages := messages s @ [already_annotated (bodyparts s ! rdb s)]\<rparr>))
         else if length (bodyparts s) \<le> rdb s then Raises IndexError s
         else if xdata ev = None \<or> ydata ev = None then Raises TypeError s
         else Returns
           (s\<lparr>drs := drs s @ [bodyparts s ! rdb s],
              buttonCounter := buttonCounter s @ [rdb s],
              updatedCoords := updatedCoords s @
                 [[\<lparr>ex = xdata ev, ey = ydata ev, ename = bodyparts s ! rdb s, eidx = rdb s\<rparr>]],
              rdb := (if int (rdb s) < int (length (bodyparts s)) - 1 then rdb s + 1 else rdb s)\<rparr>))
      else Returns s)"

subsection \<open>nextImage\<close>

text \<open>
  \<^verbatim>\<open>nextImage\<close>, the branch for \<^verbatim>\<open>self.verify\<close> False: on the last image it disables
  the Next button and returns; otherwise it commits the displayed frame, moves on and
  draws the next frame.
\<close>

definition nextImage :: "state \<Rightarrow> outcome" where
  "nextImage s =
     (if int (length (index s)) - int (iter s) = 1 then Returns (s\<lparr>next_enabled := False\<rparr>)
      else
        (case saveEachImage (s\<lparr>prev_enabled := True, rdb := 0, buttonCounter := []\<rparr>) of
           Raises e s1 \<Rightarrow> Raises e s1
         | Returns s1 \<Rightarrow>
            (let s2 = s1\<lparr>iter := iter s1 + 1\<rparr>
             in if iter s2 \<le> length (index s2) then
                  (case getLabels s2 (iter s2) of
                     Inl e \<Rightarrow> Raises e s2
                   | Inr labels \<Rightarrow>
                      (if length (index s2) \<le> iter s2 then Raises IndexError (s2\<lparr>updatedCoords := labels\<rparr>)
                       else andThen (drawplot (s2\<lparr>updatedCoords := labels, img := index s2 ! iter s2\<rparr>)) plot))
                else Returns s2)))"


subsection \<open>Strings and paths\<close>

text \<open>
  \<^verbatim>\<open>s.startswith(p)\<close>, \<^verbatim>\<open>sub in s\<close>, \<^verbatim>\<open>s.replace(old, new)\<close> and
  \<^verbatim>\<open>s.split(sep)\<close> of Python, the last two for a separator that is not empty (the
  code passes string constants).
\<close>

fun starts_with :: "string \<Rightarrow> string \<Rightarrow> bool" where
  "starts_with s [] = True"
| "starts_with [] (p # ps) = False"
| "starts_with (c # cs) (p # ps) = (c = p \<and> starts_with cs ps)"

fun str_contains :: "string \<Rightarrow> string \<Rightarrow> bool" where
  "str_contains sub [] = (sub = [])"
| "str_contains sub (c # cs) = (if starts_with (c # cs) sub then True else str_contains sub cs)"

fun str_replace :: "string \<Rightarrow> string \<Rightarrow> string \<Rightarrow> string" where
  "str_replace old new [] = []"
| "str_replace old new (c # cs) =
     (if starts_with (c # cs) old then new @ str_replace old new (drop (length old - 1) cs)
      else c # str_replace old new cs)"

fun split_from :: "string \<Rightarrow> string \<Rightarrow> string \<Rightarrow> string list" where
  "split_from sep acc [] = [acc]"
| "split_from sep acc (c # cs) =
     (if starts_with (c # cs) sep then acc # split_from sep [] (drop (length sep - 1) cs)
      else split_from sep (acc @ [c]) cs)"

definition str_split :: "string \<Rightarrow> string \<Rightarrow> string list" where
  "str_split s sep = split_from sep [] s"

text \<open>
  \<^verbatim>\<open>os.path.join(a, b)\<close> for two components; the separator is the backslash on
  win32 and the slash elsewhere. Drive letters are not modelled.
\<close>

definition is_sep :: "platform \<Rightarrow> char \<Rightarrow> bool" where
  "is_sep pf c = (if pf = Win32 then c = CHR ''/'' \<or> c = CHR 0x5C else c = CHR ''/'')"

definition path_join :: "platform \<Rightarrow> string \<Rightarrow> string \<Rightarrow> string" where
  "path_join pf a b =
     (if b \<noteq> [] \<and> is_sep pf (hd b) then b
      else if a = [] then b
      else if is_sep pf (last a) then a @ b
      else a @ (if pf = Win32 then [CHR 0x5C] else ''/'') @ b)"

subsection \<open>The file system\<close>

text \<open>
  \<^verbatim>\<open>os.rename\<close>: the source must exist; on win32 the destination must not exist; a
  file cannot replace a directory nor a directory a file. \<^verbatim>\<open>os.remove\<close> removes a
  file that exists. Each failure is an OSError.
\<close>

definition os_rename :: "string \<Rightarrow> string \<Rightarrow> state \<Rightarrow> outcome" where
  "os_rename src dst s =
     (case files s src of
        None \<Rightarrow> Raises OSError s
      | Some n \<Rightarrow>
         (case files s dst of
            None \<Rightarrow> Returns (s\<lparr>files := (files s)(src := None, dst := Some n)\<rparr>)
          | Some m \<Rightarrow>
             (if platform s = Win32 then Raises OSError s
              else if (n = Dir) = (m = Dir)
                then Returns (s\<lparr>files := (files s)(src := None, dst := Some n)\<rparr>)
              else Raises OSError s)))"

definition os_remove :: "string \<Rightarrow> state \<Rightarrow> outcome" where
  "os_remove path s =
     (case files s path of
        None \<Rightarrow> Raises OSError s
      | Some Dir \<Rightarrow> Raises OSError s
      | Some n \<Rightarrow> Returns (s\<lparr>files := (files s)(path := None)\<rparr>))"

text \<open>
  \<^verbatim>\<open>to_csv\<close> stores the table under the path. \<^verbatim>\<open>to_hdf(..., format="table", mode="w")\<close>
  creates the file anew and stores the table in it, unless the frame is empty (no row
  or no column): for an empty frame pandas stores no node, and the file holds no table
  (\<open>NoTable\<close>). The two formats hold the same table, so both are the node \<open>Table\<close>.
  The path of a directory cannot be written.
\<close>

definition to_csv :: "string \<Rightarrow> state \<Rightarrow> outcome" where
  "to_csv path s =
     (case files s path of
        Some Dir \<Rightarrow> Raises OSError s
      | _ \<Rightarrow> Returns (s\<lparr>files := (files s)(path := Some (Table (dataFrame s)))\<rparr>))"

definition to_hdf :: "string \<Rightarrow> state \<Rightarrow> outcome" where
  "to_hdf path s =
     (case files s path of
        Some Dir \<Rightarrow> Raises OSError s
      | _ \<Rightarrow> Returns
          (s\<lparr>files := (files s)
               (path := Some (if df_index (dataFrame s) = [] \<or> df_columns (dataFrame s) = []
                              then NoTable else Table (dataFrame s)))\<rparr>))"

subsection \<open>Operations of pandas\<close>

definition empty_frame :: dataframe where
  "empty_frame = \<lparr>df_index = [], df_columns = [], df_values = (\<lambda>r c. None)\<rparr>"

text \<open>
  The frame of NaN built for one bodypart:
  \<^verbatim>\<open>pd.DataFrame(a, columns=MultiIndex.from_product([[scorer], [bodypart], ["x", "y"]]), index=rows)\<close>.
\<close>

definition nan_frame :: "string list \<Rightarrow> string \<Rightarrow> string \<Rightarrow> dataframe" where
  "nan_frame rows sc bp =
     \<lparr>df_index = rows, df_columns = [(sc, bp, ''x''), (sc, bp, ''y'')], df_values = (\<lambda>r c. None)\<rparr>"

text \<open>
  \<^verbatim>\<open>pd.concat([df, fr], axis=1)\<close>: the columns of \<open>fr\<close> after those of \<open>df\<close>, the rows
  of both (an outer join), NaN where a frame has no cell.
  \<^verbatim>\<open>pd.concat([df, fr], axis=0)\<close>: the same with rows and columns exchanged.
\<close>

definition concat_columns :: "dataframe \<Rightarrow> dataframe \<Rightarrow> dataframe" where
  "concat_columns df fr =
     \<lparr>df_index = df_index df @ filter (\<lambda>r. r \<notin> set (df_index df)) (df_index fr),
      df_columns = df_columns df @ df_columns fr,
      df_values = (\<lambda>r c.
         if c \<in> set (df_columns fr) then (if r \<in> set (df_index fr) then df_values fr r c else None)
         else if r \<in> set (df_index df) \<and> c \<in> set (df_columns df) then df_values df r c
         else None)\<rparr>"

definition concat_rows :: "dataframe \<Rightarrow> dataframe \<Rightarrow> dataframe" where
  "concat_rows df fr =
     \<lparr>df_index = df_index df @ df_index fr,
      df_columns = df_columns df @ filter (\<lambda>c. c \<notin> set (df_columns df)) (df_columns fr),
      df_values = (\<lambda>r c.
         if r \<in> set (df_index fr) then (if c \<in> set (df_columns fr) then df_values fr r c else None)
         else if r \<in> set (df_index df) \<and> c \<in> set (df_columns df) then df_values df r c
         else None)\<rparr>"

definition sort_index :: "dataframe \<Rightarrow> dataframe" where
  "sort_index df = df\<lparr>df_index := sort (df_index df)\<rparr>"

text \<open>A row with NaN in every column; \<^verbatim>\<open>dropna(how="all")\<close> drops these rows.\<close>

definition row_unset :: "dataframe \<Rightarrow> string \<Rightarrow> bool" where
  "row_unset df r = list_all (\<lambda>c. df_values df r c = None) (df_columns df)"

definition dropna_all :: "dataframe \<Rightarrow> dataframe" where
  "dropna_all df = df\<lparr>df_index := filter (\<lambda>r. \<not> row_unset df r) (df_index df)\<rparr>"

text \<open>
  \<^verbatim>\<open>df.reindex(bps, axis=1, level=1)\<close>, the level named "bodyparts": the columns whose
  bodypart is in \<open>bps\<close>, sorted by scorer and then by the position of the bodypart in
  \<open>bps\<close>, keeping the order within one bodypart. pandas refuses a target with
  duplicates.
\<close>

definition reindex_columns :: "column list \<Rightarrow> string list \<Rightarrow> column list" where
  "reindex_columns cols bps =
     concat (map (\<lambda>sc. concat (map (\<lambda>bp. filter (\<lambda>c. fst c = sc \<and> fst (snd c) = bp) cols) bps))
                 (sort (remdups (map fst cols))))"

subsection \<open>saveDataSet\<close>

definition csv_path :: "state \<Rightarrow> string" where
  "csv_path s = path_join (platform s) (dir s) (''CollectedData_'' @ scorer s @ ''.csv'')"

definition hdf_path :: "state \<Rightarrow> string" where
  "hdf_path s = path_join (platform s) (dir s) (''CollectedData_'' @ scorer s @ ''.h5'')"

definition csv_backup_path :: "state \<Rightarrow> string" where
  "csv_backup_path s = str_replace ''.csv'' ''.csv.backup'' (csv_path s)"

definition hdf_backup_path :: "state \<Rightarrow> string" where
  "hdf_backup_path s = str_replace ''.h5'' ''.h5.backup'' (hdf_path s)"

text \<open>
  The branches of "Backup previous save". linux and darwin:
  \<^verbatim>\<open>if os.path.exists(p): os.rename(p, b)\<close>; win32: the rename is inside the test
  that the backup exists already, after the removal of that backup.
\<close>

definition backup_posix :: "string \<Rightarrow> string \<Rightarrow> state \<Rightarrow> outcome" where
  "backup_posix p b s = (if files s p = None then Returns s else os_rename p b s)"

definition backup_win32 :: "string \<Rightarrow> string \<Rightarrow> state \<Rightarrow> outcome" where
  "backup_win32 p b s =
     (if files s p = None then Returns s
      else if files s b = None then Returns s
      else andThen (os_remove b s) (os_rename p b))"

definition backup_previous :: "state \<Rightarrow> outcome" where
  "backup_previous s =
     (case platform s of
        Linux \<Rightarrow>
          andThen (backup_posix (csv_path s) (csv_backup_path s) s)
                  (backup_posix (hdf_path s) (hdf_backup_path s))
      | Win32 \<Rightarrow>
          andThen (backup_win32 (csv_path s) (csv_backup_path s) s)
                  (backup_win32 (hdf_path s) (hdf_backup_path s))
      | Darwin \<Rightarrow>
          (case andThen (backup_posix (csv_path s) (csv_backup_path s) s)
                        (backup_posix (hdf_path s) (hdf_backup_path s)) of
             Returns s1 \<Rightarrow> Returns s1
           | Raises e s1 \<Rightarrow>
               Returns (s1\<lparr>messages := messages s1 @
                          [Print '' Unexpected os.rename behaviour, try win32 approach'']\<rparr>))
      | Other \<Rightarrow> Returns s)"

text \<open>
  After the commit of the displayed frame: \<^verbatim>\<open>dropna(how="all")\<close>,
  \<^verbatim>\<open>sort_index\<close>, \<^verbatim>\<open>reindex(self.bodyparts, axis=1, level=...)\<close>, then the two files.
\<close>

definition write_dataset :: "state \<Rightarrow> outcome" where
  "write_dataset s =
     (let df = sort_index (dropna_all (dataFrame s))
      in if distinct (bodyparts s) then
           andThen (to_csv (csv_path s)
                      (s\<lparr>dataFrame := df\<lparr>df_columns := reindex_columns (df_columns df) (bodyparts s)\<rparr>\<rparr>))
                   (to_hdf (hdf_path s))
         else Raises NotImplementedError (s\<lparr>dataFrame := df\<rparr>))"

definition saveDataSet :: "state \<Rightarrow> outcome" where
  "saveDataSet s = andThen (andThen (backup_previous s) saveEachImage) write_dataset"

subsection \<open>deleteImage\<close>

text \<open>
  The loop "Reset updated coords" of \<^verbatim>\<open>deleteImage\<close>:
  \<^verbatim>\<open>i[0][0] = None; i[0][1] = None\<close> for each coordinate list, in place.
\<close>

fun reset_coords :: "entry list list \<Rightarrow> entry list list \<Rightarrow> state \<Rightarrow> outcome" where
  "reset_coords done [] s = Returns (s\<lparr>updatedCoords := done\<rparr>)"
| "reset_coords done ([] # rest) s = Raises IndexError (s\<lparr>updatedCoords := done @ [] # rest\<rparr>)"
| "reset_coords done ((e # es) # rest) s =
     reset_coords (done @ [e\<lparr>ex := None, ey := None\<rparr> # es]) rest s"

definition deleteImage :: "state \<Rightarrow> outcome" where
  "deleteImage s =
     (if length (relativeimagenames s) \<le> iter s then Raises IndexError s
      else
        (let image_path = path_join (platform s) (currentDirectory s) (relativeimagenames s ! iter s)
         in andThen (ResetEachImage s) (\<lambda>s1.
            andThen (reset_coords [] (updatedCoords s1) s1) (\<lambda>s2.
            andThen (saveEachImage s2) (\<lambda>s3.
            andThen (nextImage s3) (\<lambda>s4.
              os_remove image_path
                (s4\<lparr>messages := messages s4 @ [Print (''Delete Image Path :  '' @ image_path)]\<rparr>)))))))"

subsection \<open>browseDir\<close>

text \<open>
  \<^verbatim>\<open>browseDir\<close> as the "Load frames" button calls it, on the state left by
  \<^verbatim>\<open>__init__\<close>: \<^verbatim>\<open>self.dataFrame\<close> is None, \<^verbatim>\<open>self.iter\<close> is the empty list,
  \<^verbatim>\<open>self.dir\<close> is not set. What it takes from outside is an \<open>environment\<close>: the
  directory chosen in the dialog (\<open>None\<close> when the dialog is cancelled), the
  configuration read by \<^verbatim>\<open>read_config\<close>, the result of \<^verbatim>\<open>glob.glob\<close> for each
  pattern, and the answer to "Do you want to see all the other labels?".
\<close>

record config =
  cfg_scorer :: string
  cfg_bodyparts :: "string list"

record environment =
  chosen :: "string option"
  cfg :: config
  glob :: "string \<Rightarrow> string list"
  see_all :: bool

definition fresh :: "string list \<Rightarrow> string \<Rightarrow> platform \<Rightarrow> (string \<rightharpoonup> node) \<Rightarrow> state" where
  "fresh types cwd pf fs =
     \<lparr>index = [], relativeimagenames = [], iter = 0, img = [], dir = [],
      currentDirectory = cwd, imtypes = types, scorer = [], bodyparts = [],
      dataFrame = empty_frame, updatedCoords = [], drs = [], buttonCounter = [], rdb = 0,
      next_enabled = False, prev_enabled = False, closed = False, messages = [],
      files = fs, platform = pf\<rparr>"

text \<open>\<^verbatim>\<open>"labeled" + n.split("labeled")[1]\<close>, for each image; IndexError is \<open>None\<close>.\<close>

definition relative_name :: "string \<Rightarrow> string option" where
  "relative_name n =
     (case str_split n ''labeled'' of a # b # rest \<Rightarrow> Some (''labeled'' @ b) | _ \<Rightarrow> None)"

fun relative_names :: "string list \<Rightarrow> string list option" where
  "relative_names [] = Some []"
| "relative_names (n # ns) =
     (case relative_name n of
        None \<Rightarrow> None
      | Some r \<Rightarrow> (case relative_names ns of None \<Rightarrow> None | Some rs \<Rightarrow> Some (r # rs)))"

text \<open>
  \<^verbatim>\<open>pd.read_hdf(os.path.join(self.dir, "CollectedData_" + self.scorer + ".h5"), ...)\<close>
  succeeds when the file holds a table.
\<close>

definition stored_table :: "state \<Rightarrow> dataframe option" where
  "stored_table s = (case files s (hdf_path s) of Some (Table t) \<Rightarrow> Some t | _ \<Rightarrow> None)"

text \<open>
  "Finds the first empty row in the dataframe and sets the iteration to that index":
  the position of the first row with NaN everywhere, or 0.
\<close>

fun first_unset :: "dataframe \<Rightarrow> nat \<Rightarrow> string list \<Rightarrow> nat" where
  "first_unset df idx [] = 0"
| "first_unset df idx (j # js) = (if row_unset df j then idx else first_unset df (Suc idx) js)"

text \<open>
  The loop \<^verbatim>\<open>for bodypart in ...: self.dataFrame = pd.concat([self.dataFrame, frame], axis=1)\<close>
  adding a frame of NaN with the rows \<open>rows\<close> for each bodypart.
\<close>

definition nan_frames :: "string list \<Rightarrow> string \<Rightarrow> string list \<Rightarrow> dataframe \<Rightarrow> dataframe" where
  "nan_frames rows sc bps df = fold (\<lambda>bp d. concat_columns d (nan_frame rows sc bp)) bps df"

text \<open>
  "Reading the existing dataset, if already present": the \<^verbatim>\<open>try\<close> reads and sorts
  the table and looks for the first empty row; with no row the loop leaves
  \<^verbatim>\<open>self.iter\<close> the empty list and \<^verbatim>\<open>Path(self.index[self.iter])\<close> raises TypeError
  right after. The \<^verbatim>\<open>except\<close> builds the table of NaN.
\<close>

definition read_existing :: "state \<Rightarrow> outcome" where
  "read_existing s =
     (case stored_table s of
        Some t \<Rightarrow>
          (let df = sort_index t
           in if df_index df = [] then Raises TypeError (s\<lparr>dataFrame := df, prev_enabled := True\<rparr>)
              else Returns (s\<lparr>dataFrame := df, prev_enabled := True,
                              iter := first_unset df 0 (df_index df)\<rparr>))
      | None \<Rightarrow>
          Returns (s\<lparr>dataFrame := nan_frames (relativeimagenames s) (scorer s) (bodyparts s) empty_frame,
                      iter := 0\<rparr>))"

text \<open>\<^verbatim>\<open>ImagePanel.getColorIndices\<close> reads the image as \<^verbatim>\<open>drawplot\<close> does.\<close>

definition getColorIndices :: "state \<Rightarrow> outcome" where
  "getColorIndices s = (case files s (img s) of Some Image \<Rightarrow> Returns s | _ \<Rightarrow> Raises TypeError s)"

text \<open>
  "Checking for new frames and adding them to the existing dataframe". The order of
  \<^verbatim>\<open>list(set(...) - set(...))\<close> does not matter: the rows are sorted afterwards.
\<close>

definition add_new_frames :: "state \<Rightarrow> state" where
  "add_new_frames s =
     (let newimages = remdups (filter (\<lambda>n. n \<notin> set (df_index (dataFrame s))) (relativeimagenames s))
      in if newimages = [] then s
         else s\<lparr>dataFrame := sort_index (concat_rows (dataFrame s)
                    (nan_frames newimages (scorer s) (bodyparts s) empty_frame))\<rparr>)"

text \<open>"checks for unique bodyparts": the message and \<^verbatim>\<open>self.Close(True)\<close>; no return.\<close>

definition check_unique :: "state \<Rightarrow> state" where
  "check_unique s =
     (if length (bodyparts s) = length (remdups (bodyparts s)) then s
      else s\<lparr>messages := messages s @
                [Print ''Error - bodyparts must have unique labels! Please choose unique bodyparts in config.yaml file and try again. Quitting for now!''],
             closed := True\<rparr>)"

text \<open>
  "Extracting the list of new labels" and both branches of "Checking if user added a new
  label"; the radio box is created with the first bodypart selected.
\<close>

definition add_new_labels :: "environment \<Rightarrow> state \<Rightarrow> outcome" where
  "add_new_labels env s =
     (let oldBodyParts = map (\<lambda>c. fst (snd c)) (df_columns (dataFrame s));
          oldbodyparts2plot = rev (remdups (rev oldBodyParts));
          new_bodyparts = filter (\<lambda>x. x \<notin> set oldbodyparts2plot) (bodyparts s)
      in if new_bodyparts = [] then andThen (drawplot s) (\<lambda>s1. plot (s1\<lparr>rdb := 0\<rparr>))
         else
           andThen
             (drawplot
                (s\<lparr>bodyparts := (if see_all env then bodyparts s else new_bodyparts),
                   dataFrame := nan_frames (relativeimagenames s) (scorer s) new_bodyparts (dataFrame s)\<rparr>))
             (\<lambda>s1. plot (s1\<lparr>rdb := 0\<rparr>)))"

definition browseDir :: "environment \<Rightarrow> state \<Rightarrow> outcome" where
  "browseDir env s =
     (case chosen env of
        None \<Rightarrow>
          Raises AttributeError
            (s\<lparr>closed := True, scorer := cfg_scorer (cfg env), bodyparts := cfg_bodyparts (cfg env)\<rparr>)
      | Some d \<Rightarrow>
          (let imlist = concat (map (\<lambda>imtype. filter (\<lambda>fn. \<not> str_contains ''labeled.png'' fn)
                                         (glob env (path_join (platform s) d imtype)))
                                    (imtypes s));
               s1 = s\<lparr>dir := d, next_enabled := True, scorer := cfg_scorer (cfg env),
                      bodyparts := cfg_bodyparts (cfg env), index := sort imlist\<rparr>
           in case relative_names (index s1) of
                None \<Rightarrow> Raises IndexError s1
              | Some rel \<Rightarrow>
                  andThen (read_existing (s1\<lparr>relativeimagenames := rel\<rparr>)) (\<lambda>s2.
                    if length (index s2) \<le> iter s2 then Raises IndexError s2
                    else andThen (getColorIndices (s2\<lparr>img := index s2 ! iter s2\<rparr>)) (\<lambda>s3.
                      if stored_table s3 = None \<and> bodyparts s3 = [] then Raises AttributeError s3
                      else add_new_labels env (check_unique (add_new_frames s3))))))"

section \<open>Sessions for evaluation\<close>

text \<open>
  Two frames, two bodyparts, labeler \<open>me\<close>. Frame \<open>a\<close> has the nose at (1, 2), frame
  \<open>b\<close> has the nose at (5, 6); the tail is unset on both.
\<close>

definition table2 :: dataframe where
  "table2 =
     \<lparr>df_index = [''labeled-data/v/a.png'', ''labeled-data/v/b.png''],
      df_columns = [(''me'', ''nose'', ''x''), (''me'', ''nose'', ''y''),
                    (''me'', ''tail'', ''x''), (''me'', ''tail'', ''y'')],
      df_values = (\<lambda>r c.
         if r = ''labeled-data/v/a.png'' \<and> c = (''me'', ''nose'', ''x'') then Some 1
         else if r = ''labeled-data/v/a.png'' \<and> c = (''me'', ''nose'', ''y'') then Some 2
         else if r = ''labeled-data/v/b.png'' \<and> c = (''me'', ''nose'', ''x'') then Some 5
         else if r = ''labeled-data/v/b.png'' \<and> c = (''me'', ''nose'', ''y'') then Some 6
         else None)\<rparr>"

definition session2 :: state where
  "session2 =
     \<lparr>index = [''/p/labeled-data/v/a.png'', ''/p/labeled-data/v/b.png''],
      relativeimagenames = [''labeled-data/v/a.png'', ''labeled-data/v/b.png''],
      iter = 1,
      img = ''/p/labeled-data/v/b.png'',
      dir = ''/p/labeled-data/v'',
      currentDirectory = ''/p'',
      imtypes = [''*.png''],
      scorer = ''me'',
      bodyparts = [''nose'', ''tail''],
      dataFrame = table2,
      updatedCoords =
        [[\<lparr>ex = Some 5, ey = Some 6, ename = ''nose'', eidx = 0\<rparr>,
          \<lparr>ex = Some 7, ey = Some 8, ename = ''nose'', eidx = 0\<rparr>],
         [\<lparr>ex = None, ey = None, ename = ''tail'', eidx = 1\<rparr>]],
      drs = [''nose'', ''tail''],
      buttonCounter = [0],
      rdb = 0,
      next_enabled = True,
      prev_enabled = True,
      closed = False,
      messages = [],
      files = [''/p/labeled-data/v/a.png'' \<mapsto> Image, ''/p/labeled-data/v/b.png'' \<mapsto> Image],
      platform = Linux\<rparr>"

text \<open>
  In \<open>session2\<close> the second and last frame \<open>b\<close> is displayed and the nose has been
  dragged to (7, 8), which is not committed yet.
\<close>

definition right_click :: event where
  "right_click = \<lparr>button = 3, xdata = Some 3, ydata = Some 4\<rparr>"

text \<open>
  One frame, three bodyparts; the tail is stored at (5, 6), nose and paw are unset.
  \<open>session3\<close> is the state in which \<^verbatim>\<open>plot\<close> leaves the display of that frame.
\<close>

definition table3 :: dataframe where
  "table3 =
     \<lparr>df_index = [''labeled-data/v/a.png''],
      df_columns = [(''me'', ''nose'', ''x''), (''me'', ''nose'', ''y''),
                    (''me'', ''tail'', ''x''), (''me'', ''tail'', ''y''),
                    (''me'', ''paw'', ''x''), (''me'', ''paw'', ''y'')],
      df_values = (\<lambda>r c.
         if r = ''labeled-data/v/a.png'' \<and> c = (''me'', ''tail'', ''x'') then Some 5
         else if r = ''labeled-data/v/a.png'' \<and> c = (''me'', ''tail'', ''y'') then Some 6
         else None)\<rparr>"

definition session3 :: state where
  "session3 =
     \<lparr>index = [''/p/labeled-data/v/a.png''],
      relativeimagenames = [''labeled-data/v/a.png''],
      iter = 0,
      img = ''/p/labeled-data/v/a.png'',
      dir = ''/p/labeled-data/v'',
      currentDirectory = ''/p'',
      imtypes = [''*.png''],
      scorer = ''me'',
      bodyparts = [''nose'', ''tail'', ''paw''],
      dataFrame = table3,
      updatedCoords =
        [[\<lparr>ex = None, ey = None, ename = ''nose'', eidx = 0\<rparr>],
         [\<lparr>ex = Some 5, ey = Some 6, ename = ''tail'', eidx = 1\<rparr>],
         [\<lparr>ex = None, ey = None, ename = ''paw'', eidx = 2\<rparr>]],
      drs = [''nose'', ''tail'', ''paw''],
      buttonCounter = [1],
      rdb = 0,
      next_enabled = True,
      prev_enabled = False,
      closed = False,
      messages = [],
      files = [''/p/labeled-data/v/a.png'' \<mapsto> Image],
      platform = Linux\<rparr>"



text \<open>
  Two sessions about to save over an earlier save \<open>old_table\<close>: on win32 with no
  backup file yet, and on linux where the name of the backup is taken by a directory.
\<close>

definition old_table :: dataframe where
  "old_table = table2\<lparr>df_index := [''labeled-data/v/a.png'']\<rparr>"

definition save_win32 :: state where
  "save_win32 =
     session2\<lparr>platform := Win32,
       files := (files session2)
         (''/p/labeled-data/v'' @ [CHR 0x5C] @ ''CollectedData_me.csv'' := Some (Table old_table),
          ''/p/labeled-data/v'' @ [CHR 0x5C] @ ''CollectedData_me.h5'' := Some (Table old_table))\<rparr>"

definition save_linux :: state where
  "save_linux =
     session2\<lparr>files := (files session2)
         (''/p/labeled-data/v/CollectedData_me.csv'' := Some (Table old_table),
          ''/p/labeled-data/v/CollectedData_me.csv.backup'' := Some Dir)\<rparr>"

text \<open>
  \<open>session0\<close> displays the first of the two frames, as \<^verbatim>\<open>plot\<close> draws it; no
  handle has been moved.
\<close>

definition session0 :: state where
  "session0 =
     session2\<lparr>iter := 0, img := ''/p/labeled-data/v/a.png'',
       updatedCoords :=
        [[\<lparr>ex = Some 1, ey = Some 2, ename = ''nose'', eidx = 0\<rparr>],
         [\<lparr>ex = None, ey = None, ename = ''tail'', eidx = 1\<rparr>]]\<rparr>"

text \<open>
  \<open>session0_dragged\<close> is \<open>session0\<close> after the nose has been dragged from (1, 2) to
  (7, 8): the drag has appended the new position to the coordinate list of the handle.
\<close>

definition session0_dragged :: state where
  "session0_dragged =
     session0\<lparr>updatedCoords :=
        [[\<lparr>ex = Some 1, ey = Some 2, ename = ''nose'', eidx = 0\<rparr>,
          \<lparr>ex = Some 7, ey = Some 8, ename = ''nose'', eidx = 0\<rparr>],
         [\<lparr>ex = None, ey = None, ename = ''tail'', eidx = 1\<rparr>]]\<rparr>"

text \<open>
  Loading: the folder holds the two frames and the table \<open>table2\<close> saved earlier.
  In \<open>env_new\<close> the configuration has the new bodypart paw; in \<open>env_duplicate\<close> it
  names the nose twice; in \<open>env_removed\<close> it has the new bodypart paw and no longer
  the tail; \<open>env_only_new\<close> is \<open>env_new\<close> with the answer No to "Do you want to see
  all the other labels?". \<open>start0\<close> is the same folder with no table saved yet.
\<close>

definition disk2 :: "string \<rightharpoonup> node" where
  "disk2 = [''/p/labeled-data/v/a.png'' \<mapsto> Image, ''/p/labeled-data/v/b.png'' \<mapsto> Image,
            ''/p/labeled-data/v/CollectedData_me.h5'' \<mapsto> Table table2]"

definition start2 :: state where
  "start2 = fresh [''*.png''] ''/p'' Linux disk2"

definition env_new :: environment where
  "env_new =
     \<lparr>chosen = Some ''/p/labeled-data/v'',
      cfg = \<lparr>cfg_scorer = ''me'', cfg_bodyparts = [''nose'', ''tail'', ''paw'']\<rparr>,
      glob = (\<lambda>pattern. if pattern = ''/p/labeled-data/v/*.png''
                          then [''/p/labeled-data/v/b.png'', ''/p/labeled-data/v/a.png''] else []),
      see_all = True\<rparr>"

definition env_duplicate :: environment where
  "env_duplicate = env_new\<lparr>cfg := \<lparr>cfg_scorer = ''me'', cfg_bodyparts = [''nose'', ''tail'', ''nose'']\<rparr>\<rparr>"




definition env_removed :: environment where
  "env_removed = env_new\<lparr>cfg := \<lparr>cfg_scorer = ''me'', cfg_bodyparts = [''nose'', ''paw'']\<rparr>\<rparr>"

section \<open>Notions used in the proofs\<close>


text \<open>The fields a commit leaves alone.\<close>

definition same_session :: "state \<Rightarrow> state \<Rightarrow> bool" where
  "same_session s t =
     (dir t = dir s \<and> scorer t = scorer s \<and> platform t = platform s \<and>
      bodyparts t = bodyparts s \<and> files t = files s \<and> messages t = messages s \<and>
      index t = index s \<and> relativeimagenames t = relativeimagenames s \<and> iter t = iter s \<and>
      currentDirectory t = currentDirectory s \<and> updatedCoords t = updatedCoords s \<and>
      df_index (dataFrame t) = df_index (dataFrame s) \<and>
      df_columns (dataFrame t) = df_columns (dataFrame s))"


text \<open>The effect of the loop "Reset updated coords" on one coordinate list.\<close>

definition reset_first :: "entry list \<Rightarrow> entry list" where
  "reset_first bp = (case bp of [] \<Rightarrow> [] | e # es \<Rightarrow> e\<lparr>ex := None, ey := None\<rparr> # es)"

text \<open>The cells of the handles' bodyparts are unset in row \<open>r\<close>.\<close>

definition cleared :: "state \<Rightarrow> entry list list \<Rightarrow> string \<Rightarrow> bool" where
  "cleared t bps r =
     (\<forall>bp\<in>set bps. df_values (dataFrame t) r (scorer t, ename (hd bp), ''x'') = None \<and>
                    df_values (dataFrame t) r (scorer t, ename (hd bp), ''y'') = None)"

text \<open>What drawing leaves alone.\<close>

definition same_store :: "state \<Rightarrow> state \<Rightarrow> bool" where
  "same_store s t =
     (dataFrame t = dataFrame s \<and> files t = files s \<and> iter t = iter s \<and> index t = index s \<and>
      relativeimagenames t = relativeimagenames s \<and> scorer t = scorer s \<and>
      bodyparts t = bodyparts s \<and> messages t = messages s \<and>
      currentDirectory t = currentDirectory s \<and> platform t = platform s)"

text \<open>The table \<open>df\<close> has the rows, the columns and the cells of \<open>t\<close>.\<close>

definition extends :: "dataframe \<Rightarrow> dataframe \<Rightarrow> bool" where
  "extends t df =
     (set (df_index t) \<subseteq> set (df_index df) \<and> set (df_columns t) \<subseteq> set (df_columns df) \<and>
      (\<forall>r\<in>set (df_index t). \<forall>c\<in>set (df_columns t). df_values df r c = df_values t r c))"

text \<open>The column \<open>c\<close> is in the table and unset in every row.\<close>

definition unset_column :: "dataframe \<Rightarrow> column \<Rightarrow> bool" where
  "unset_column df c = (c \<in> set (df_columns df) \<and> (\<forall>r. df_values df r c = None))"

text \<open>The bodyparts that label the columns of a table.\<close>

definition labels_of :: "dataframe \<Rightarrow> string set" where
  "labels_of df = (\<lambda>c. fst (snd c)) ` set (df_columns df)"

section \<open>Properties\<close>

subsection \<open>Helper lemmas on the commit loop\<close>

lemma save_point_frame:
  "relativeimagenames (final (save_point bp s)) = relativeimagenames s \<and>
   iter (final (save_point bp s)) = iter s \<and>
   df_index (dataFrame (final (save_point bp s))) = df_index (dataFrame s) \<and>
   df_columns (dataFrame (final (save_point bp s))) = df_columns (dataFrame s)"
  by (simp add: save_point_def set_value_def Let_def)

lemma save_point_other_row:
  "G \<noteq> relativeimagenames s ! iter s \<Longrightarrow>
   df_values (dataFrame (final (save_point bp s))) G = df_values (dataFrame s) G"
  by (simp add: save_point_def set_value_def Let_def)

lemma for_each_save_point_other_row:
  "G \<noteq> relativeimagenames s ! iter s \<Longrightarrow>
   relativeimagenames (final (for_each save_point bps s)) = relativeimagenames s \<and>
   iter (final (for_each save_point bps s)) = iter s \<and>
   df_index (dataFrame (final (for_each save_point bps s))) = df_index (dataFrame s) \<and>
   df_columns (dataFrame (final (for_each save_point bps s))) = df_columns (dataFrame s) \<and>
   df_values (dataFrame (final (for_each save_point bps s))) G = df_values (dataFrame s) G"
proof (induction bps arbitrary: s)
  case Nil
  then show ?case by simp
next
  case (Cons bp bps)
  show ?case
  proof (cases "save_point bp s")
    case (Returns s1)
    have fr: "relativeimagenames s1 = relativeimagenames s" "iter s1 = iter s"
      "df_index (dataFrame s1) = df_index (dataFrame s)"
      "df_columns (dataFrame s1) = df_columns (dataFrame s)"
      using save_point_frame [of bp s] Returns by simp_all
    have row: "df_values (dataFrame s1) G = df_values (dataFrame s) G"
      using save_point_other_row [OF Cons.prems, of bp] Returns by simp
    have "G \<noteq> relativeimagenames s1 ! iter s1"
      using Cons.prems fr by simp
    from Cons.IH [OF this] show ?thesis
      using Returns fr row by simp
  next
    case (Raises e s1)
    then show ?thesis
      using save_point_frame [of bp s] save_point_other_row [OF Cons.prems, of bp]
      by simp
  qed
qed

subsection \<open>C2: a place attempt on a bodypart already set\<close>

text \<open>
  C2. A right click while the selected bodypart's index is in \<open>buttonCounter\<close> opens the
  message box "... is already annotated" and changes nothing else: the table, the point
  handles, the pending coordinate lists, \<open>buttonCounter\<close> and the selection are as
  before.
\<close>

theorem onClick_conflict:
  assumes "button ev = 3"
    and "rdb s \<in> set (buttonCounter s)"
    and "rdb s < length (bodyparts s)"
  shows "onClick ev s = Returns (s\<lparr>messages := messages s @ [already_annotated (bodyparts s ! rdb s)]\<rparr>) \<and>
         dataFrame (final (onClick ev s)) = dataFrame s \<and>
         drs (final (onClick ev s)) = drs s \<and>
         updatedCoords (final (onClick ev s)) = updatedCoords s"
  using assms by (simp add: onClick_def)

theorem onClick_conflict_witness:
  "button right_click = 3 \<and> rdb session2 \<in> set (buttonCounter session2) \<and>
   rdb session2 < length (bodyparts session2) \<and>
   onClick right_click session2 =
     Returns (session2\<lparr>messages := [already_annotated ''nose'']\<rparr>) \<and>
   dataFrame (final (onClick right_click session2)) = table2 \<and>
   drs (final (onClick right_click session2)) = [''nose'', ''tail''] \<and>
   updatedCoords (final (onClick right_click session2)) = updatedCoords session2"
proof -
  have h: "button right_click = 3" "rdb session2 \<in> set (buttonCounter session2)"
    "rdb session2 < length (bodyparts session2)"
    by (simp_all add: right_click_def session2_def)
  show ?thesis
    using h onClick_conflict [OF h] by (simp add: session2_def)
qed

subsection \<open>C10: Next on the last frame\<close>

text \<open>
  C10. When the displayed frame is the last of the sequence, \<open>nextImage\<close> returns at
  once: the position and the table are unchanged (only the Next button is disabled), so
  the pending coordinate lists are not committed by it.
\<close>

theorem nextImage_last_frame:
  assumes "int (length (index s)) - int (iter s) = 1"
  shows "nextImage s = Returns (s\<lparr>next_enabled := False\<rparr>) \<and>
         iter (final (nextImage s)) = iter s \<and>
         dataFrame (final (nextImage s)) = dataFrame s \<and>
         updatedCoords (final (nextImage s)) = updatedCoords s"
  using assms by (simp add: nextImage_def)

theorem nextImage_last_frame_witness:
  "int (length (index session2)) - int (iter session2) = 1 \<and>
   nextImage session2 = Returns (session2\<lparr>next_enabled := False\<rparr>) \<and>
   iter (final (nextImage session2)) = 1 \<and>
   dataFrame (final (nextImage session2)) = table2 \<and>
   df_values (dataFrame (final (nextImage session2))) ''labeled-data/v/b.png'' (''me'', ''nose'', ''x'') = Some 5 \<and>
   df_values (dataFrame (final (saveEachImage session2))) ''labeled-data/v/b.png'' (''me'', ''nose'', ''x'') = Some 7"
proof -
  have h: "int (length (index session2)) - int (iter session2) = 1"
    by (simp add: session2_def)
  have c: "df_values (dataFrame (final (saveEachImage session2))) ''labeled-data/v/b.png'' (''me'', ''nose'', ''x'') = Some 7"
    by (simp add: saveEachImage_def save_point_def set_value_def session2_def table2_def Let_def)
  show ?thesis
    using h c nextImage_last_frame [OF h] by (simp add: session2_def table2_def)
qed

subsection \<open>C5: a commit writes the row of the displayed frame only\<close>

text \<open>
  C5. \<open>saveEachImage\<close> writes only the row of the displayed frame,
  \<open>relativeimagenames ! iter\<close>: the row of every other frame \<open>G\<close> is the same after
  it, whether it returns or raises, and so are the row labels and the column labels.
  This holds in every state, hence at every call of \<open>saveEachImage\<close> (direct, from the
  navigation, from the save).
\<close>

theorem saveEachImage_other_frames:
  assumes "iter s < length (relativeimagenames s)"
    and "G \<noteq> relativeimagenames s ! iter s"
  shows "df_values (dataFrame (final (saveEachImage s))) G = df_values (dataFrame s) G \<and>
         df_index (dataFrame (final (saveEachImage s))) = df_index (dataFrame s) \<and>
         df_columns (dataFrame (final (saveEachImage s))) = df_columns (dataFrame s)"
  using for_each_save_point_other_row [OF assms(2), of "updatedCoords s"]
  by (simp add: saveEachImage_def)

theorem saveEachImage_other_frames_witness:
  "iter session2 < length (relativeimagenames session2) \<and>
   ''labeled-data/v/a.png'' \<noteq> relativeimagenames session2 ! iter session2 \<and>
   df_values (dataFrame (final (saveEachImage session2))) ''labeled-data/v/a.png'' =
     df_values table2 ''labeled-data/v/a.png'' \<and>
   df_values (dataFrame (final (saveEachImage session2))) ''labeled-data/v/b.png'' (''me'', ''nose'', ''y'') = Some 8"
proof -
  have h: "iter session2 < length (relativeimagenames session2)"
    "''labeled-data/v/a.png'' \<noteq> relativeimagenames session2 ! iter session2"
    by (simp_all add: session2_def)
  have c: "df_values (dataFrame (final (saveEachImage session2))) ''labeled-data/v/b.png'' (''me'', ''nose'', ''y'') = Some 8"
    by (simp add: saveEachImage_def save_point_def set_value_def session2_def table2_def Let_def)
  have d: "dataFrame session2 = table2" by (simp add: session2_def)
  show ?thesis
    using h c saveEachImage_other_frames [OF h] by (simp add: d)
qed


subsection \<open>C3: the selection after a place\<close>

text \<open>
  What a successful place does: a right click inside the axes, while the selected index
  is not in \<open>buttonCounter\<close>, records the index and moves the selection one position
  further, whether the bodypart there is set or not; on the last bodypart the selection
  stays.
\<close>

lemma onClick_place:
  assumes "button ev = 3"
    and "xdata ev \<noteq> None" and "ydata ev \<noteq> None"
    and "rdb s \<notin> set (buttonCounter s)"
    and "rdb s < length (bodyparts s)"
  shows "returned (onClick ev s) \<and>
         buttonCounter (final (onClick ev s)) = buttonCounter s @ [rdb s] \<and>
         rdb (final (onClick ev s)) =
           (if rdb s + 1 < length (bodyparts s) then rdb s + 1 else rdb s)"
  using assms by (auto simp add: onClick_def)

lemma onClick_outside_axes:
  assumes "button ev = 3" and "xdata ev = None \<or> ydata ev = None"
    and "rdb s \<notin> set (buttonCounter s)"
    and "rdb s < length (bodyparts s)"
  shows "onClick ev s = Raises TypeError s"
  using assms by (auto simp add: onClick_def)

text \<open>
  C3. The selection after a place is not the next unset bodypart. \<open>session3\<close>
  displays a frame on which only the tail (index 1) is set, and the nose (index 0) is
  selected. A right click at (3, 4) places the nose; the selection then is 1, the tail,
  which is set, while the paw (index 2) is unset.
\<close>

theorem onClick_selects_set_bodypart:
  "plot (session3\<lparr>buttonCounter := []\<rparr>) = Returns session3 \<and>
   rdb session3 \<notin> set (buttonCounter session3) \<and>
   returned (onClick right_click session3) \<and>
   rdb (final (onClick right_click session3)) = 1 \<and>
   1 \<in> set (buttonCounter (final (onClick right_click session3))) \<and>
   2 < length (bodyparts (final (onClick right_click session3))) \<and>
   2 \<notin> set (buttonCounter (final (onClick right_click session3)))"
  by (simp add: onClick_def right_click_def session3_def table3_def plot_def getLabels_def
        read_value_def)

subsection \<open>C1: reading back\<close>

text \<open>
  C1. \<open>getLabels\<close> does not return the values of the frame it is asked about. In
  \<open>session2\<close> frame 1 is displayed and its nose has been dragged to (7, 8). After the
  commit, reading frame 1 back gives the nose at (7, 8); asked for frame 0, \<open>getLabels\<close>
  gives the same answer, the values of frame 1, while the row of frame 0 holds the
  nose at (1, 2).
\<close>

theorem getLabels_ignores_img_index:
  "iter session2 = 1 \<and>
   returned (saveEachImage session2) \<and>
   getLabels (final (saveEachImage session2)) 1 =
     Inr [[\<lparr>ex = Some 7, ey = Some 8, ename = ''nose'', eidx = 0\<rparr>],
          [\<lparr>ex = None, ey = None, ename = ''tail'', eidx = 1\<rparr>]] \<and>
   getLabels (final (saveEachImage session2)) 0 =
     Inr [[\<lparr>ex = Some 7, ey = Some 8, ename = ''nose'', eidx = 0\<rparr>],
          [\<lparr>ex = None, ey = None, ename = ''tail'', eidx = 1\<rparr>]] \<and>
   read_value (dataFrame (final (saveEachImage session2))) ''me'' ''nose'' ''x'' 0 = Inr (Some 1) \<and>
   read_value (dataFrame (final (saveEachImage session2))) ''me'' ''nose'' ''y'' 0 = Inr (Some 2)"
  by code_simp

subsection \<open>Helper lemmas on saving\<close>

lemma path_updates [simp]:
  "csv_path (s\<lparr>dataFrame := d\<rparr>) = csv_path s"
  "hdf_path (s\<lparr>dataFrame := d\<rparr>) = hdf_path s"
  "csv_path (s\<lparr>files := f\<rparr>) = csv_path s"
  "hdf_path (s\<lparr>files := f\<rparr>) = hdf_path s"
  "csv_path (s\<lparr>messages := m\<rparr>) = csv_path s"
  "hdf_path (s\<lparr>messages := m\<rparr>) = hdf_path s"
  by (simp_all add: csv_path_def hdf_path_def)




lemma for_each_invariant:
  assumes "\<And>x t. x \<in> set xs \<Longrightarrow> P t \<Longrightarrow> P (final (f x t))" and "P s"
  shows "P (final (for_each f xs s))"
  using assms
proof (induction xs arbitrary: s)
  case Nil
  then show ?case by simp
next
  case (Cons x xs)
  have step: "P (final (f x s))"
    using Cons.prems by simp
  show ?case
  proof (cases "f x s")
    case (Returns t)
    have "P (final (for_each f xs t))"
      using Cons.IH [of t] Cons.prems(1) step Returns by simp
    then show ?thesis using Returns by simp
  next
    case (Raises e t)
    then show ?thesis using step by simp
  qed
qed

lemma save_point_same_session: "same_session s t \<Longrightarrow> same_session s (final (save_point bp t))"
  by (simp add: same_session_def save_point_def set_value_def Let_def)

lemma saveEachImage_same_session: "same_session s (final (saveEachImage s))"
  unfolding saveEachImage_def
  by (rule for_each_invariant [where P = "same_session s"])
     (simp_all add: save_point_same_session, simp add: same_session_def)















lemma os_rename_code [code]:
  "os_rename src dst s =
     (case files s src of
        None \<Rightarrow> Raises OSError s
      | Some n \<Rightarrow>
         (case files s dst of
            None \<Rightarrow> Returns (s\<lparr>files := (files s)(src := None, dst := Some n)\<rparr>)
          | Some m \<Rightarrow>
             (if platform s = Win32 then Raises OSError s
              else if (case n of Dir \<Rightarrow> True | _ \<Rightarrow> False) = (case m of Dir \<Rightarrow> True | _ \<Rightarrow> False)
                then Returns (s\<lparr>files := (files s)(src := None, dst := Some n)\<rparr>)
              else Raises OSError s)))"
  by (simp add: os_rename_def split: option.splits node.splits)



subsection \<open>C4: what save writes\<close>












subsection \<open>C7: the backup before a save\<close>

lemma save_win32_paths:
  "csv_path save_win32 = ''/p/labeled-data/v'' @ [CHR 0x5C] @ ''CollectedData_me.csv''"
  "hdf_path save_win32 = ''/p/labeled-data/v'' @ [CHR 0x5C] @ ''CollectedData_me.h5''"
  "csv_backup_path save_win32 = ''/p/labeled-data/v'' @ [CHR 0x5C] @ ''CollectedData_me.csv.backup''"
  "hdf_backup_path save_win32 = ''/p/labeled-data/v'' @ [CHR 0x5C] @ ''CollectedData_me.h5.backup''"
  by (simp_all add: csv_backup_path_def csv_path_def hdf_backup_path_def hdf_path_def
        save_win32_def session2_def path_join_def is_sep_def)

lemma save_win32_fields:
  "platform save_win32 = Win32"
  "files save_win32 (csv_path save_win32) = Some (Table old_table)"
  "files save_win32 (hdf_path save_win32) = Some (Table old_table)"
  "files save_win32 (csv_backup_path save_win32) = None"
  "files save_win32 (hdf_backup_path save_win32) = None"
  "distinct (bodyparts save_win32)"
  unfolding save_win32_paths by (simp_all add: save_win32_def session2_def)

lemma save_win32_backup: "backup_previous save_win32 = Returns save_win32"
  by (simp add: backup_previous_def backup_win32_def save_win32_fields)

lemma save_win32_commit: "saveEachImage save_win32 = Returns (final (saveEachImage save_win32))"
  by (simp add: saveEachImage_def save_point_def save_win32_def session2_def table2_def Let_def
        set_value_def)

lemma save_win32_rows:
  "\<not> row_unset (dataFrame (final (saveEachImage save_win32))) ''labeled-data/v/a.png''"
  "\<not> row_unset (dataFrame (final (saveEachImage save_win32))) ''labeled-data/v/b.png''"
  by (simp_all add: saveEachImage_def save_point_def save_win32_def session2_def table2_def Let_def
        set_value_def row_unset_def)

lemma save_linux_paths:
  "csv_path save_linux = ''/p/labeled-data/v/CollectedData_me.csv''"
  "csv_backup_path save_linux = ''/p/labeled-data/v/CollectedData_me.csv.backup''"
  by (simp_all add: csv_backup_path_def csv_path_def save_linux_def session2_def path_join_def
        is_sep_def)

lemma save_linux_fields:
  "platform save_linux = Linux"
  "files save_linux (csv_path save_linux) = Some (Table old_table)"
  "files save_linux (csv_backup_path save_linux) = Some Dir"
  unfolding save_linux_paths by (simp_all add: save_linux_def session2_def)

text \<open>
  C7. On win32, with a previous csv file and no backup file yet, \<open>saveDataSet\<close> makes no
  backup at all and overwrites the previous file. On linux a rename that fails (here the
  name of the backup is a directory) ends \<open>saveDataSet\<close> with OSError before anything is
  saved: the state is unchanged.
\<close>

theorem saveDataSet_backup_not_best_effort:
  "platform save_win32 = Win32 \<and>
   files save_win32 (csv_path save_win32) = Some (Table old_table) \<and>
   files save_win32 (csv_backup_path save_win32) = None \<and>
   saveDataSet save_win32 = Returns (final (saveDataSet save_win32)) \<and>
   files (final (saveDataSet save_win32)) (csv_backup_path save_win32) = None \<and>
   files (final (saveDataSet save_win32)) (csv_path save_win32) =
     Some (Table (dataFrame (final (saveDataSet save_win32)))) \<and>
   df_index (dataFrame (final (saveDataSet save_win32))) =
     [''labeled-data/v/a.png'', ''labeled-data/v/b.png''] \<and>
   df_index old_table = [''labeled-data/v/a.png''] \<and>
   platform save_linux = Linux \<and>
   files save_linux (csv_path save_linux) = Some (Table old_table) \<and>
   files save_linux (csv_backup_path save_linux) = Some Dir \<and>
   saveDataSet save_linux = Raises OSError save_linux"
proof -
  obtain s2 where c: "saveEachImage save_win32 = Returns s2"
    using save_win32_commit by simp
  have ss: "same_session save_win32 s2"
    using saveEachImage_same_session [of save_win32] c by simp
  have f: "files s2 = files save_win32" "bodyparts s2 = bodyparts save_win32"
    "csv_path s2 = csv_path save_win32" "hdf_path s2 = hdf_path save_win32"
    "df_index (dataFrame s2) = df_index (dataFrame save_win32)"
    using ss by (simp_all add: same_session_def csv_path_def hdf_path_def)
  have r: "\<not> row_unset (dataFrame s2) ''labeled-data/v/a.png''"
    "\<not> row_unset (dataFrame s2) ''labeled-data/v/b.png''"
    using save_win32_rows c by simp_all
  have i: "df_index (dataFrame save_win32) = [''labeled-data/v/a.png'', ''labeled-data/v/b.png'']"
    by (simp add: save_win32_def session2_def table2_def)
  have n: "csv_backup_path save_win32 \<noteq> csv_path save_win32"
    "csv_backup_path save_win32 \<noteq> hdf_path save_win32"
    "csv_path save_win32 \<noteq> hdf_path save_win32"
    by (simp_all add: save_win32_paths)
  define W where "W = (sort_index (dropna_all (dataFrame s2)))
      \<lparr>df_columns := reindex_columns (df_columns (sort_index (dropna_all (dataFrame s2))))
                                      (bodyparts save_win32)\<rparr>"
  have iW: "df_index W = [''labeled-data/v/a.png'', ''labeled-data/v/b.png'']"
    by (simp add: W_def sort_index_def dropna_all_def f i r)
  have wd: "write_dataset s2 =
      andThen (to_csv (csv_path save_win32) (s2\<lparr>dataFrame := W\<rparr>)) (to_hdf (hdf_path save_win32))"
    by (simp add: write_dataset_def Let_def W_def f save_win32_fields)
  have csv: "to_csv (csv_path save_win32) (s2\<lparr>dataFrame := W\<rparr>) =
      Returns (s2\<lparr>dataFrame := W, files := (files save_win32)(csv_path save_win32 := Some (Table W))\<rparr>)"
    by (simp add: to_csv_def f save_win32_fields)
  obtain h where win: "saveDataSet save_win32 =
      Returns (s2\<lparr>dataFrame := W,
                   files := (files save_win32)(csv_path save_win32 := Some (Table W),
                                               hdf_path save_win32 := Some h)\<rparr>)"
    using n(3) by (simp add: saveDataSet_def save_win32_backup c wd csv to_hdf_def save_win32_fields)
  have lin: "saveDataSet save_linux = Raises OSError save_linux"
    by (simp add: saveDataSet_def backup_previous_def backup_posix_def os_rename_def
          save_linux_fields)
  have old: "df_index old_table = [''labeled-data/v/a.png'']"
    by (simp add: old_table_def)
  show ?thesis
    using n by (simp add: win lin old save_win32_fields save_linux_fields iW)
qed



subsection \<open>Helper lemmas on deleting a frame\<close>

lemma returned_final: "returned out \<Longrightarrow> out = Returns (final out)"
  by (cases out) simp_all

lemma reset_coords_result:
  "reset_coords done todo s = Returns t \<Longrightarrow>
     t = s\<lparr>updatedCoords := done @ map reset_first todo\<rparr>"
proof (induction "done" todo s rule: reset_coords.induct)
  case (1 "done" s)
  then show ?case by simp
next
  case (2 "done" rest s)
  then show ?case by simp
next
  case (3 "done" e es rest s)
  then show ?case by (simp add: reset_first_def)
qed

lemma reset_point_same_session: "same_session s t \<Longrightarrow> same_session s (final (reset_point bp t))"
  by (simp add: same_session_def reset_point_def set_value_def Let_def)

lemma ResetEachImage_same_session: "same_session s (final (ResetEachImage s))"
  unfolding ResetEachImage_def
  by (rule for_each_invariant [where P = "same_session s"])
     (simp_all add: reset_point_same_session, simp add: same_session_def)

lemma save_point_none_kept:
  assumes "ex (last bp) = None" and "ey (last bp) = None"
    and "df_values (dataFrame s) r c = None"
  shows "df_values (dataFrame (final (save_point bp s))) r c = None"
  using assms by (auto simp add: save_point_def set_value_def Let_def)

lemma for_each_save_point_none_kept:
  assumes "\<forall>bp\<in>set bps. ex (last bp) = None \<and> ey (last bp) = None"
    and "df_values (dataFrame s) r c = None"
  shows "df_values (dataFrame (final (for_each save_point bps s))) r c = None"
  using assms
  by (intro for_each_invariant [where P = "\<lambda>t. df_values (dataFrame t) r c = None"])
     (simp_all add: save_point_none_kept)


lemma same_session_refl: "same_session s s"
  by (simp add: same_session_def)

lemma save_point_writes_none:
  assumes "save_point bp s = Returns t" and "ex (last bp) = None" and "ey (last bp) = None"
  shows "df_values (dataFrame t) (relativeimagenames s ! iter s) (scorer s, ename (hd bp), ''x'') = None \<and>
         df_values (dataFrame t) (relativeimagenames s ! iter s) (scorer s, ename (hd bp), ''y'') = None"
  using assms by (auto simp add: save_point_def set_value_def Let_def split: if_splits)

lemma for_each_save_point_cleared:
  assumes "for_each save_point bps s = Returns t"
    and "\<forall>bp\<in>set bps. ex (last bp) = None \<and> ey (last bp) = None"
  shows "cleared t bps (relativeimagenames s ! iter s)"
  using assms
proof (induction bps arbitrary: s)
  case Nil
  then show ?case by (simp add: cleared_def)
next
  case (Cons bp rest)
  obtain u where u: "save_point bp s = Returns u" and r: "for_each save_point rest u = Returns t"
    using Cons.prems(1) by (cases "save_point bp s") simp_all
  have su: "same_session s u"
    using save_point_same_session [OF same_session_refl, of s bp] u by simp
  have ut: "same_session u t"
    using for_each_invariant [where P = "same_session u" and f = save_point and xs = rest and s = u]
      save_point_same_session same_session_refl r by simp
  have n: "ex (last bp) = None" "ey (last bp) = None"
    "\<forall>bp\<in>set rest. ex (last bp) = None \<and> ey (last bp) = None"
    using Cons.prems(2) by simp_all
  have rest: "cleared t rest (relativeimagenames s ! iter s)"
    using Cons.IH [OF r n(3)] su by (simp add: same_session_def)
  have here: "df_values (dataFrame u) (relativeimagenames s ! iter s) (scorer s, ename (hd bp), ''x'') = None"
    "df_values (dataFrame u) (relativeimagenames s ! iter s) (scorer s, ename (hd bp), ''y'') = None"
    using save_point_writes_none [OF u n(1) n(2)] by simp_all
  have kept: "df_values (dataFrame t) (relativeimagenames s ! iter s) (scorer s, ename (hd bp), ''x'') = None"
    "df_values (dataFrame t) (relativeimagenames s ! iter s) (scorer s, ename (hd bp), ''y'') = None"
    using for_each_save_point_none_kept [OF n(3) here(1)]
      for_each_save_point_none_kept [OF n(3) here(2)] r by simp_all
  have "scorer t = scorer s"
    using su ut by (simp add: same_session_def)
  then show ?case
    using rest kept by (simp add: cleared_def)
qed

lemma plot_loop_same_store:
  "same_store s0 s \<Longrightarrow> same_store s0 (final (plot_loop i bps s))"
proof (induction bps arbitrary: i s)
  case Nil
  then show ?case by simp
next
  case (Cons bp bps)
  have a: "same_store s0 (s\<lparr>drs := d, updatedCoords := u\<rparr>)" for d u
    using Cons.prems by (simp add: same_store_def)
  have b: "same_store s0 (s\<lparr>drs := d, updatedCoords := u, buttonCounter := c\<rparr>)" for d u c
    using Cons.prems by (simp add: same_store_def)
  show ?case
    using Cons.prems Cons.IH [OF a] Cons.IH [OF b]
    by (simp split: sum.splits)
qed

lemma plot_same_store: "same_store s (final (plot s))"
  unfolding plot_def
  by (rule plot_loop_same_store) (simp add: same_store_def)

lemma nextImage_at_last:
  "int (length (index s)) - int (iter s) = 1 \<Longrightarrow> nextImage s = Returns (s\<lparr>next_enabled := False\<rparr>)"
  by (simp add: nextImage_def)

lemma nextImage_advance:
  assumes "int (length (index s)) - int (iter s) \<noteq> 1" and "nextImage s = Returns t"
  shows "\<exists>u. saveEachImage (s\<lparr>prev_enabled := True, rdb := 0, buttonCounter := []\<rparr>) = Returns u \<and>
             same_store (u\<lparr>iter := iter u + 1\<rparr>) t"
proof -
  obtain u where u: "saveEachImage (s\<lparr>prev_enabled := True, rdb := 0, buttonCounter := []\<rparr>) = Returns u"
    using assms by (cases "saveEachImage (s\<lparr>prev_enabled := True, rdb := 0, buttonCounter := []\<rparr>)")
      (simp_all add: nextImage_def)
  let ?s2 = "u\<lparr>iter := iter u + 1\<rparr>"
  show ?thesis
  proof (cases "iter ?s2 \<le> length (index ?s2)")
    case False
    then have "t = ?s2"
      using assms u by (simp add: nextImage_def Let_def)
    then show ?thesis using u by (simp add: same_store_def)
  next
    case True
    obtain labels where l: "getLabels ?s2 (iter ?s2) = Inr labels"
      using assms u True by (cases "getLabels ?s2 (iter ?s2)") (simp_all add: nextImage_def Let_def)
    have inr: "\<not> length (index ?s2) \<le> iter ?s2"
      using assms u True l by (auto simp add: nextImage_def Let_def split: if_splits)
    let ?s3 = "?s2\<lparr>updatedCoords := labels, img := index ?s2 ! iter ?s2\<rparr>"
    have p: "andThen (drawplot ?s3) plot = Returns t"
      using assms u True l inr by (simp add: nextImage_def Let_def)
    have d: "drawplot ?s3 = Returns ?s3"
      using p by (cases "files ?s3 (img ?s3)") (auto simp add: drawplot_def split: node.splits)
    have "plot ?s3 = Returns t" using p d by simp
    then have "same_store ?s3 t"
      using plot_same_store [of ?s3] by simp
    then have "same_store ?s2 t"
      by (simp add: same_store_def)
    then show ?thesis using u by blast
  qed
qed


lemma saveEachImage_cleared:
  assumes "saveEachImage s = Returns t"
    and "\<forall>bp\<in>set (updatedCoords s). ex (last bp) = None \<and> ey (last bp) = None"
  shows "cleared t (updatedCoords s) (relativeimagenames s ! iter s)"
  using for_each_save_point_cleared [of "updatedCoords s" s t] assms
  by (simp add: saveEachImage_def)

lemma os_remove_result:
  assumes "os_remove path s = Returns t"
  shows "t = s\<lparr>files := (files s)(path := None)\<rparr> \<and> files s path \<noteq> None"
  using assms by (auto simp add: os_remove_def split: option.splits node.splits)

lemma reset_first_single:
  assumes "length bp = 1"
  shows "ex (last (reset_first bp)) = None \<and> ey (last (reset_first bp)) = None \<and>
         ename (hd (reset_first bp)) = ename (hd bp)"
proof -
  obtain e where "bp = [e]"
    using assms by (cases bp) simp_all
  then show ?thesis by (simp add: reset_first_def)
qed

text \<open>The navigation to the next frame writes the row of the frame it leaves only.\<close>

lemma nextImage_other_frames:
  assumes "nextImage s = Returns t" and "G \<noteq> relativeimagenames s ! iter s"
  shows "df_values (dataFrame t) G = df_values (dataFrame s) G"
proof (cases "int (length (index s)) - int (iter s) = 1")
  case True
  then show ?thesis
    using nextImage_at_last [OF True] assms(1) by simp
next
  case False
  let ?s = "s\<lparr>prev_enabled := True, rdb := 0, buttonCounter := []\<rparr>"
  obtain u where u: "saveEachImage ?s = Returns u" and st: "same_store (u\<lparr>iter := iter u + 1\<rparr>) t"
    using nextImage_advance [OF False assms(1)] by blast
  have "G \<noteq> relativeimagenames ?s ! iter ?s"
    using assms(2) by simp
  then have "df_values (dataFrame (final (for_each save_point (updatedCoords ?s) ?s))) G =
             df_values (dataFrame ?s) G"
    using for_each_save_point_other_row by blast
  then have "df_values (dataFrame u) G = df_values (dataFrame s) G"
    using u by (simp add: saveEachImage_def)
  then show ?thesis
    using st by (simp add: same_store_def)
qed

subsection \<open>C9: deleting the displayed frame\<close>

text \<open>
  What \<open>deleteImage\<close> does when no handle of the frame has been moved since it was
  drawn (each coordinate list has one element) and it returns: the x and y cells of the
  frame's row are unset for the bodypart of every handle; the file at
  \<^verbatim>\<open>os.path.join(self.currentDirectory, self.relativeimagenames[self.iter])\<close> is
  removed and no other file changes; the position advances by one, except on the last
  frame, where \<open>nextImage\<close> returns at once and the position stays.
\<close>

lemma deleteImage_effect:
  assumes "deleteImage s = Returns s'"
    and "\<forall>bp\<in>set (updatedCoords s). length bp = 1"
  shows "(\<forall>bp\<in>set (updatedCoords s).
            df_values (dataFrame s') (relativeimagenames s ! iter s) (scorer s, ename (hd bp), ''x'') = None \<and>
            df_values (dataFrame s') (relativeimagenames s ! iter s) (scorer s, ename (hd bp), ''y'') = None) \<and>
         files s (path_join (platform s) (currentDirectory s) (relativeimagenames s ! iter s)) \<noteq> None \<and>
         files s' = (files s)(path_join (platform s) (currentDirectory s) (relativeimagenames s ! iter s) := None) \<and>
         iter s' = (if int (length (index s)) - int (iter s) = 1 then iter s else iter s + 1)"
proof -
  let ?path = "path_join (platform s) (currentDirectory s) (relativeimagenames s ! iter s)"
  let ?r = "relativeimagenames s ! iter s"
  have d: "andThen (ResetEachImage s) (\<lambda>s1.
            andThen (reset_coords [] (updatedCoords s1) s1) (\<lambda>s2.
            andThen (saveEachImage s2) (\<lambda>s3.
            andThen (nextImage s3) (\<lambda>s4.
              os_remove ?path
                (s4\<lparr>messages := messages s4 @ [Print (''Delete Image Path :  '' @ ?path)]\<rparr>))))) = Returns s'"
    using assms(1) by (simp add: deleteImage_def Let_def split: if_splits)
  obtain s1 where s1: "ResetEachImage s = Returns s1"
    using d by (cases "ResetEachImage s") simp_all
  obtain s2 where s2: "reset_coords [] (updatedCoords s1) s1 = Returns s2"
    using d s1 by (cases "reset_coords [] (updatedCoords s1) s1") simp_all
  obtain s3 where s3: "saveEachImage s2 = Returns s3"
    using d s1 s2 by (cases "saveEachImage s2") simp_all
  obtain s4 where s4: "nextImage s3 = Returns s4"
    using d s1 s2 s3 by (cases "nextImage s3") simp_all
  have rm: "os_remove ?path (s4\<lparr>messages := messages s4 @ [Print (''Delete Image Path :  '' @ ?path)]\<rparr>) = Returns s'"
    using d s1 s2 s3 s4 by simp
  have a1: "same_session s s1"
    using ResetEachImage_same_session [of s] s1 by simp
  have e2: "s2 = s1\<lparr>updatedCoords := map reset_first (updatedCoords s1)\<rparr>"
    using reset_coords_result [OF s2] by simp
  have u2: "updatedCoords s2 = map reset_first (updatedCoords s)"
    using e2 a1 by (simp add: same_session_def)
  have f2: "relativeimagenames s2 = relativeimagenames s" "iter s2 = iter s" "scorer s2 = scorer s"
    "files s2 = files s" "index s2 = index s"
    using e2 a1 by (simp_all add: same_session_def)
  have a3: "same_session s2 s3"
    using saveEachImage_same_session [of s2] s3 by simp
  have f3: "relativeimagenames s3 = relativeimagenames s" "iter s3 = iter s" "scorer s3 = scorer s"
    "files s3 = files s" "index s3 = index s" "updatedCoords s3 = updatedCoords s2"
    using a3 f2 by (simp_all add: same_session_def)
  have none2: "\<forall>bp\<in>set (updatedCoords s2). ex (last bp) = None \<and> ey (last bp) = None"
    using assms(2) reset_first_single by (auto simp add: u2)
  have c3: "cleared s3 (updatedCoords s2) ?r"
    using saveEachImage_cleared [OF s3 none2] f2 by simp
  have c4: "cleared s4 (updatedCoords s2) ?r \<and> scorer s4 = scorer s \<and> files s4 = files s \<and>
            iter s4 = (if int (length (index s)) - int (iter s) = 1 then iter s else iter s + 1)"
  proof (cases "int (length (index s3)) - int (iter s3) = 1")
    case True
    then have "s4 = s3\<lparr>next_enabled := False\<rparr>"
      using nextImage_at_last [OF True] s4 by simp
    then show ?thesis
      using c3 f3 True by (simp add: cleared_def)
  next
    case False
    let ?s3 = "s3\<lparr>prev_enabled := True, rdb := 0, buttonCounter := []\<rparr>"
    obtain u where u: "saveEachImage ?s3 = Returns u" and st: "same_store (u\<lparr>iter := iter u + 1\<rparr>) s4"
      using nextImage_advance [OF False s4] by blast
    have au: "same_session ?s3 u"
      using saveEachImage_same_session [of ?s3] u by simp
    have "cleared u (updatedCoords ?s3) (relativeimagenames ?s3 ! iter ?s3)"
      using saveEachImage_cleared [OF u] none2 f3 by simp
    then have "cleared u (updatedCoords s2) ?r"
      using f3 by simp
    moreover have "dataFrame s4 = dataFrame u" "scorer s4 = scorer u" "files s4 = files u"
      "iter s4 = iter u + 1"
      using st by (simp_all add: same_store_def)
    moreover have "scorer u = scorer s" "files u = files s" "iter u = iter s"
      using au f3 by (simp_all add: same_session_def)
    ultimately show ?thesis
      using False f3 by (simp add: cleared_def)
  qed
  have e': "s' = s4\<lparr>messages := messages s4 @ [Print (''Delete Image Path :  '' @ ?path)],
                   files := (files s4)(?path := None)\<rparr>"
    and ex: "files s4 ?path \<noteq> None"
    using os_remove_result [OF rm] by simp_all
  have names: "\<forall>bp\<in>set (updatedCoords s). ename (hd (reset_first bp)) = ename (hd bp)"
    using assms(2) reset_first_single by blast
  have cl: "\<forall>bp\<in>set (updatedCoords s).
            df_values (dataFrame s4) ?r (scorer s, ename (hd bp), ''x'') = None \<and>
            df_values (dataFrame s4) ?r (scorer s, ename (hd bp), ''y'') = None"
    using c4 names by (auto simp add: cleared_def u2)
  show ?thesis
    using cl c4 ex by (simp add: e')
qed


lemma session0_delete: "returned (deleteImage session0)"
  by code_simp

lemma session0_facts:
  "relativeimagenames session0 ! iter session0 = ''labeled-data/v/a.png''"
  "path_join (platform session0) (currentDirectory session0) ''labeled-data/v/a.png''
     = ''/p/labeled-data/v/a.png''"
  "scorer session0 = ''me''"
  "length (index session0) = 2"
  "[\<lparr>ex = Some 1, ey = Some 2, ename = ''nose'', eidx = 0\<rparr>] \<in> set (updatedCoords session0)"
  by (simp_all add: session0_def session2_def path_join_def is_sep_def)

lemma deleteImage_effect_example:
  "returned (deleteImage session0) \<and>
   map length (updatedCoords session0) = [1, 1] \<and>
   df_values (dataFrame session0) ''labeled-data/v/a.png'' (''me'', ''nose'', ''x'') = Some 1 \<and>
   df_values (dataFrame (final (deleteImage session0))) ''labeled-data/v/a.png'' (''me'', ''nose'', ''x'') = None \<and>
   df_values (dataFrame (final (deleteImage session0))) ''labeled-data/v/a.png'' (''me'', ''nose'', ''y'') = None \<and>
   files session0 ''/p/labeled-data/v/a.png'' = Some Image \<and>
   files (final (deleteImage session0)) ''/p/labeled-data/v/a.png'' = None \<and>
   iter session0 = 0 \<and>
   iter (final (deleteImage session0)) = 1"
proof -
  have h: "\<forall>bp\<in>set (updatedCoords session0). length bp = 1"
    by (simp add: session0_def)
  have g: "map length (updatedCoords session0) = [1, 1]"
    "df_values (dataFrame session0) ''labeled-data/v/a.png'' (''me'', ''nose'', ''x'') = Some 1"
    "files session0 ''/p/labeled-data/v/a.png'' = Some Image" "iter session0 = 0"
    by (simp_all add: session0_def session2_def table2_def)
  note e = deleteImage_effect [OF returned_final [OF session0_delete] h, unfolded session0_facts]
  have "df_values (dataFrame (final (deleteImage session0))) ''labeled-data/v/a.png''
          (''me'', ''nose'', ''x'') = None \<and>
        df_values (dataFrame (final (deleteImage session0))) ''labeled-data/v/a.png''
          (''me'', ''nose'', ''y'') = None"
    using e session0_facts(5) by fastforce
  then show ?thesis
    using session0_delete e g by simp
qed

lemma deleteImage_last_frame:
  "returned (deleteImage session3) \<and>
   length (index session3) = 1 \<and> iter session3 = 0 \<and>
   iter (final (deleteImage session3)) = 0"
  by code_simp

text \<open>
  C9. \<open>deleteImage\<close> does not unset the row when a handle has been dragged. In
  \<open>session0_dragged\<close> the first of two frames is displayed and its nose has been
  dragged from (1, 2) to (7, 8). \<open>deleteImage\<close> returns, the image file is removed and
  the position advances to 1, but the row of the deleted frame holds the nose at
  (7, 8): \<^verbatim>\<open>ResetEachImage\<close> has unset the cells, the loop "Reset updated coords"
  has cleared the first element of the coordinate list, and \<^verbatim>\<open>saveEachImage\<close> has
  written its last element back.
\<close>

theorem deleteImage_keeps_dragged_position:
  "returned (deleteImage session0_dragged) \<and>
   iter session0_dragged = 0 \<and>
   relativeimagenames session0_dragged ! 0 = ''labeled-data/v/a.png'' \<and>
   iter (final (deleteImage session0_dragged)) = 1 \<and>
   (case files session0_dragged ''/p/labeled-data/v/a.png'' of Some Image \<Rightarrow> True | _ \<Rightarrow> False) \<and>
   (case files (final (deleteImage session0_dragged)) ''/p/labeled-data/v/a.png'' of
      None \<Rightarrow> True | _ \<Rightarrow> False) \<and>
   df_values (dataFrame (final (ResetEachImage session0_dragged))) ''labeled-data/v/a.png''
     (''me'', ''nose'', ''x'') = None \<and>
   df_values (dataFrame (final (deleteImage session0_dragged))) ''labeled-data/v/a.png''
     (''me'', ''nose'', ''x'') = Some 7 \<and>
   df_values (dataFrame (final (deleteImage session0_dragged))) ''labeled-data/v/a.png''
     (''me'', ''nose'', ''y'') = Some 8 \<and>
   df_values (dataFrame (final (deleteImage session0_dragged))) ''labeled-data/v/a.png''
     (''me'', ''tail'', ''x'') = None"
  by code_simp

subsection \<open>Helper lemmas on loading\<close>

lemma extends_sort_index: "extends t (sort_index t)"
  by (simp add: extends_def sort_index_def)

lemma extends_sort_index': "extends t df \<Longrightarrow> extends t (sort_index df)"
  by (simp add: extends_def sort_index_def)

lemma extends_concat_columns:
  assumes "extends t df" and "set (df_columns fr) \<inter> set (df_columns t) = {}"
  shows "extends t (concat_columns df fr)"
  using assms by (auto simp add: extends_def concat_columns_def)

lemma extends_concat_rows:
  assumes "extends t df" and "set (df_index fr) \<inter> set (df_index t) = {}"
  shows "extends t (concat_rows df fr)"
  using assms by (auto simp add: extends_def concat_rows_def)

lemma nan_frames_Nil [simp]: "nan_frames rows sc [] df = df"
  by (simp add: nan_frames_def)

lemma nan_frames_Cons [simp]:
  "nan_frames rows sc (bp # bps) df = nan_frames rows sc bps (concat_columns df (nan_frame rows sc bp))"
  by (simp add: nan_frames_def)

lemma nan_frames_columns:
  "df_columns (nan_frames rows sc bps df) =
     df_columns df @ concat (map (\<lambda>bp. [(sc, bp, ''x''), (sc, bp, ''y'')]) bps)"
  by (induction bps arbitrary: df) (simp_all add: concat_columns_def nan_frame_def)

lemma nan_frames_index_subset:
  "set (df_index (nan_frames rows sc bps df)) \<subseteq> set (df_index df) \<union> set rows"
proof (induction bps arbitrary: df)
  case Nil
  then show ?case by simp
next
  case (Cons bp bps)
  have "set (df_index (concat_columns df (nan_frame rows sc bp))) \<subseteq> set (df_index df) \<union> set rows"
    by (auto simp add: concat_columns_def nan_frame_def)
  then show ?case
    using Cons.IH [of "concat_columns df (nan_frame rows sc bp)"] by auto
qed

lemma nan_frames_extends:
  assumes "extends t df" and "\<forall>bp\<in>set bps. bp \<notin> (\<lambda>c. fst (snd c)) ` set (df_columns t)"
  shows "extends t (nan_frames rows sc bps df)"
  using assms
proof (induction bps arbitrary: df)
  case Nil
  then show ?case by simp
next
  case (Cons bp bps)
  have "set (df_columns (nan_frame rows sc bp)) \<inter> set (df_columns t) = {}"
    using Cons.prems(2) by (force simp add: nan_frame_def)
  then have "extends t (concat_columns df (nan_frame rows sc bp))"
    using Cons.prems(1) by (rule extends_concat_columns [rotated])
  then show ?case
    using Cons.IH Cons.prems(2) by simp
qed

lemma concat_columns_unset_kept:
  "unset_column df c \<Longrightarrow> unset_column (concat_columns df (nan_frame rows sc bp)) c"
  by (simp add: unset_column_def concat_columns_def nan_frame_def)

lemma concat_columns_unset_new:
  "co = ''x'' \<or> co = ''y'' \<Longrightarrow> unset_column (concat_columns df (nan_frame rows sc bp)) (sc, bp, co)"
  by (auto simp add: unset_column_def concat_columns_def nan_frame_def)

lemma nan_frames_unset_kept:
  "unset_column df c \<Longrightarrow> unset_column (nan_frames rows sc bps df) c"
  by (induction bps arbitrary: df) (simp_all add: concat_columns_unset_kept)

lemma nan_frames_unset_new:
  assumes "bp \<in> set bps" and "co = ''x'' \<or> co = ''y''"
  shows "unset_column (nan_frames rows sc bps df) (sc, bp, co)"
  using assms(1)
proof (induction bps arbitrary: df)
  case Nil
  then show ?case by simp
next
  case (Cons b bps)
  show ?case
  proof (cases "bp = b")
    case True
    then show ?thesis
      using concat_columns_unset_new [OF assms(2), of df rows sc b] nan_frames_unset_kept
      by simp
  next
    case False
    then show ?thesis using Cons by simp
  qed
qed

lemma concat_columns_all_unset:
  "df_values df = (\<lambda>r c. None) \<Longrightarrow>
   df_values (concat_columns df (nan_frame rows sc bp)) = (\<lambda>r c. None)"
  by (simp add: concat_columns_def nan_frame_def fun_eq_iff)

lemma nan_frames_all_unset:
  "df_values df = (\<lambda>r c. None) \<Longrightarrow> df_values (nan_frames rows sc bps df) = (\<lambda>r c. None)"
proof (induction bps arbitrary: df)
  case Nil
  then show ?case by simp
next
  case (Cons bp bps)
  show ?case
    using Cons.IH [OF concat_columns_all_unset [OF Cons.prems]] by simp
qed

lemma concat_rows_unset_new:
  assumes "c \<notin> set (df_columns df)" and "c \<in> set (df_columns fr)"
    and "\<forall>r. df_values fr r c = None"
  shows "unset_column (concat_rows df fr) c"
  using assms by (simp add: unset_column_def concat_rows_def)

lemma sort_index_unset: "unset_column df c \<Longrightarrow> unset_column (sort_index df) c"
  by (simp add: unset_column_def sort_index_def)


lemma drawplot_returns: "drawplot s = Returns t \<Longrightarrow> t = s"
  by (cases "files s (img s)") (auto simp add: drawplot_def split: node.splits)

lemma getColorIndices_returns: "getColorIndices s = Returns t \<Longrightarrow> t = s"
  by (cases "files s (img s)") (auto simp add: getColorIndices_def split: node.splits)

lemma draw_and_plot_table:
  assumes "andThen (drawplot s) (\<lambda>s1. plot (s1\<lparr>rdb := 0\<rparr>)) = Returns s'"
  shows "dataFrame s' = dataFrame s"
proof -
  obtain s1 where d: "drawplot s = Returns s1"
    using assms by (cases "drawplot s") simp_all
  have "plot (s\<lparr>rdb := 0\<rparr>) = Returns s'"
    using assms d drawplot_returns [OF d] by simp
  then show ?thesis
    using plot_same_store [of "s\<lparr>rdb := 0\<rparr>"] by (simp add: same_store_def)
qed

lemma add_new_labels_table:
  assumes "add_new_labels env s = Returns s'"
  shows "dataFrame s' =
           nan_frames (relativeimagenames s) (scorer s)
             (filter (\<lambda>x. x \<notin> (\<lambda>c. fst (snd c)) ` set (df_columns (dataFrame s))) (bodyparts s))
             (dataFrame s)"
proof (cases "filter (\<lambda>x. x \<notin> (\<lambda>c. fst (snd c)) ` set (df_columns (dataFrame s))) (bodyparts s) = []")
  case True
  then have "andThen (drawplot s) (\<lambda>s1. plot (s1\<lparr>rdb := 0\<rparr>)) = Returns s'"
    using assms by (simp add: add_new_labels_def Let_def)
  then show ?thesis
    using draw_and_plot_table True by simp
next
  case False
  let ?new = "filter (\<lambda>x. x \<notin> (\<lambda>c. fst (snd c)) ` set (df_columns (dataFrame s))) (bodyparts s)"
  let ?s1 = "s\<lparr>bodyparts := (if see_all env then bodyparts s else ?new),
                dataFrame := nan_frames (relativeimagenames s) (scorer s) ?new (dataFrame s)\<rparr>"
  have "set (rev (remdups (rev (map (\<lambda>c. fst (snd c)) (df_columns (dataFrame s)))))) =
          (\<lambda>c. fst (snd c)) ` set (df_columns (dataFrame s))"
    by simp
  then have "add_new_labels env s = andThen (drawplot ?s1) (\<lambda>s1. plot (s1\<lparr>rdb := 0\<rparr>))"
    using False unfolding add_new_labels_def Let_def by presburger
  then have "andThen (drawplot ?s1) (\<lambda>s1. plot (s1\<lparr>rdb := 0\<rparr>)) = Returns s'"
    using assms by simp
  then have "dataFrame s' = dataFrame ?s1"
    by (rule draw_and_plot_table)
  then show ?thesis by simp
qed

lemma add_new_frames_fields:
  "scorer (add_new_frames s) = scorer s" "bodyparts (add_new_frames s) = bodyparts s"
  "relativeimagenames (add_new_frames s) = relativeimagenames s"
  by (simp_all add: add_new_frames_def Let_def)

lemma check_unique_fields:
  "scorer (check_unique s) = scorer s" "bodyparts (check_unique s) = bodyparts s"
  "relativeimagenames (check_unique s) = relativeimagenames s"
  "dataFrame (check_unique s) = dataFrame s"
  by (simp_all add: check_unique_def)

lemma add_new_frames_extends:
  assumes "extends t (dataFrame s)"
  shows "extends t (dataFrame (add_new_frames s))"
proof -
  let ?new = "remdups (filter (\<lambda>n. n \<notin> set (df_index (dataFrame s))) (relativeimagenames s))"
  let ?fr = "nan_frames ?new (scorer s) (bodyparts s) empty_frame"
  have "set (df_index ?fr) \<subseteq> set ?new"
    using nan_frames_index_subset [of ?new "scorer s" "bodyparts s" empty_frame]
    by (simp add: empty_frame_def)
  moreover have "set ?new \<inter> set (df_index t) = {}"
    using assms by (auto simp add: extends_def)
  ultimately have "set (df_index ?fr) \<inter> set (df_index t) = {}"
    by blast
  then have "extends t (sort_index (concat_rows (dataFrame s) ?fr))"
    using assms extends_concat_rows extends_sort_index' by blast
  then show ?thesis
    using assms by (simp add: add_new_frames_def Let_def)
qed

lemma labels_of_nan_frames:
  "labels_of (nan_frames rows sc bps df) = labels_of df \<union> set bps"
proof -
  have "(\<lambda>c. fst (snd c)) ` set (concat (map (\<lambda>bp. [(sc, bp, ''x''), (sc, bp, ''y'')]) bps)) = set bps"
    by (induction bps) auto
  then show ?thesis
    by (simp add: labels_of_def nan_frames_columns image_Un)
qed

lemma add_new_frames_labels:
  "labels_of (dataFrame s) \<subseteq> labels_of (dataFrame (add_new_frames s)) \<and>
   labels_of (dataFrame (add_new_frames s)) \<subseteq> labels_of (dataFrame s) \<union> set (bodyparts s)"
  by (auto simp add: add_new_frames_def Let_def labels_of_def sort_index_def concat_rows_def
        nan_frames_columns empty_frame_def)

lemma add_new_frames_unset:
  assumes "b \<in> set (bodyparts s)" and "b \<notin> labels_of (dataFrame s)"
    and "co = ''x'' \<or> co = ''y''" and "b \<in> labels_of (dataFrame (add_new_frames s))"
  shows "unset_column (dataFrame (add_new_frames s)) (scorer s, b, co)"
proof -
  let ?new = "remdups (filter (\<lambda>n. n \<notin> set (df_index (dataFrame s))) (relativeimagenames s))"
  let ?fr = "nan_frames ?new (scorer s) (bodyparts s) empty_frame"
  have changed: "dataFrame (add_new_frames s) = sort_index (concat_rows (dataFrame s) ?fr)"
    using assms(2,4) by (cases "?new = []") (simp_all add: add_new_frames_def Let_def)
  have "(scorer s, b, co) \<notin> set (df_columns (dataFrame s))"
    using assms(2) by (force simp add: labels_of_def)
  moreover have "(scorer s, b, co) \<in> set (df_columns ?fr)"
    using assms(1,3) by (auto simp add: nan_frames_columns)
  moreover have "df_values ?fr = (\<lambda>r c. None)"
    by (rule nan_frames_all_unset) (simp add: empty_frame_def)
  ultimately have "unset_column (concat_rows (dataFrame s) ?fr) (scorer s, b, co)"
    by (intro concat_rows_unset_new) simp_all
  then show ?thesis
    using changed sort_index_unset by simp
qed


lemma env_new_returns: "returned (browseDir env_new start2)"
  by code_simp

lemma env_new_table:
  "df_index (dataFrame (final (browseDir env_new start2))) =
     [''labeled-data/v/a.png'', ''labeled-data/v/b.png'']"
  "df_columns (dataFrame (final (browseDir env_new start2))) =
     [(''me'', ''nose'', ''x''), (''me'', ''nose'', ''y''),
      (''me'', ''tail'', ''x''), (''me'', ''tail'', ''y''),
      (''me'', ''paw'', ''x''), (''me'', ''paw'', ''y'')]"
  by code_simp+

subsection \<open>C6: new bodyparts in the configuration\<close>

text \<open>
  C6, as stated, fails in its last part. The stored table \<open>table2\<close> has the columns of
  nose and tail; the configuration of \<open>env_removed\<close> lists nose and paw. After loading,
  the table has the columns of nose, tail and paw: the tail is not in the bodypart list.
\<close>

theorem browseDir_keeps_old_columns_counterexample:
  "returned (browseDir env_removed start2) \<and>
   files start2 ''/p/labeled-data/v/CollectedData_me.h5'' = Some (Table table2) \<and>
   df_columns table2 =
     [(''me'', ''nose'', ''x''), (''me'', ''nose'', ''y''),
      (''me'', ''tail'', ''x''), (''me'', ''tail'', ''y'')] \<and>
   cfg_bodyparts (cfg env_removed) = [''nose'', ''paw''] \<and>
   df_columns (dataFrame (final (browseDir env_removed start2))) =
     [(''me'', ''nose'', ''x''), (''me'', ''nose'', ''y''),
      (''me'', ''tail'', ''x''), (''me'', ''tail'', ''y''),
      (''me'', ''paw'', ''x''), (''me'', ''paw'', ''y'')]"
proof -
  have "files start2 ''/p/labeled-data/v/CollectedData_me.h5'' = Some (Table table2)"
    by (simp add: start2_def fresh_def disk2_def)
  moreover have "df_columns table2 =
     [(''me'', ''nose'', ''x''), (''me'', ''nose'', ''y''),
      (''me'', ''tail'', ''x''), (''me'', ''tail'', ''y'')]"
    by (simp add: table2_def)
  moreover have "returned (browseDir env_removed start2)"
    by code_simp
  moreover have "cfg_bodyparts (cfg env_removed) = [''nose'', ''paw'']"
    by (simp add: env_removed_def)
  moreover have "df_columns (dataFrame (final (browseDir env_removed start2))) =
     [(''me'', ''nose'', ''x''), (''me'', ''nose'', ''y''),
      (''me'', ''tail'', ''x''), (''me'', ''tail'', ''y''),
      (''me'', ''paw'', ''x''), (''me'', ''paw'', ''y'')]"
    by code_simp
  ultimately show ?thesis by simp
qed

text \<open>
  C6, amended. Let \<open>browseDir\<close> return after reading the stored table \<open>t\<close>, and let
  \<open>b\<close> be a configured bodypart that labels no column of \<open>t\<close>. Then the table of the
  session has the columns (scorer, \<open>b\<close>, x) and (scorer, \<open>b\<close>, y), unset in every
  row; it has every row and every column of \<open>t\<close> with the cells of \<open>t\<close>; and the
  bodyparts that label its columns are those of \<open>t\<close> together with the configured ones
  (hence exactly the configured list when every bodypart of \<open>t\<close> is still configured).
\<close>

theorem browseDir_new_bodypart:
  assumes ret: "browseDir env s = Returns s'"
    and dlg: "chosen env = Some d"
    and tab: "files s (path_join (platform s) d (''CollectedData_'' @ cfg_scorer (cfg env) @ ''.h5''))
                = Some (Table t)"
    and new: "b \<in> set (cfg_bodyparts (cfg env))" "b \<notin> (\<lambda>c. fst (snd c)) ` set (df_columns t)"
  shows "(cfg_scorer (cfg env), b, ''x'') \<in> set (df_columns (dataFrame s')) \<and>
         (cfg_scorer (cfg env), b, ''y'') \<in> set (df_columns (dataFrame s')) \<and>
         (\<forall>r. df_values (dataFrame s') r (cfg_scorer (cfg env), b, ''x'') = None \<and>
              df_values (dataFrame s') r (cfg_scorer (cfg env), b, ''y'') = None) \<and>
         set (df_index t) \<subseteq> set (df_index (dataFrame s')) \<and>
         set (df_columns t) \<subseteq> set (df_columns (dataFrame s')) \<and>
         (\<forall>r\<in>set (df_index t). \<forall>c\<in>set (df_columns t). df_values (dataFrame s') r c = df_values t r c) \<and>
         (\<lambda>c. fst (snd c)) ` set (df_columns (dataFrame s')) =
           (\<lambda>c. fst (snd c)) ` set (df_columns t) \<union> set (cfg_bodyparts (cfg env))"
proof -
  let ?sc = "cfg_scorer (cfg env)"
  let ?bps = "cfg_bodyparts (cfg env)"
  define imlist where "imlist = concat (map (\<lambda>imtype. filter (\<lambda>fn. \<not> str_contains ''labeled.png'' fn)
                                         (glob env (path_join (platform s) d imtype)))
                                    (imtypes s))"
  define s1 where "s1 = s\<lparr>dir := d, next_enabled := True, scorer := ?sc,
                      bodyparts := ?bps, index := sort imlist\<rparr>"
  have unfold: "browseDir env s =
     (case relative_names (index s1) of
                None \<Rightarrow> Raises IndexError s1
              | Some rel \<Rightarrow>
                  andThen (read_existing (s1\<lparr>relativeimagenames := rel\<rparr>)) (\<lambda>s2.
                    if length (index s2) \<le> iter s2 then Raises IndexError s2
                    else andThen (getColorIndices (s2\<lparr>img := index s2 ! iter s2\<rparr>)) (\<lambda>s3.
                      if stored_table s3 = None \<and> bodyparts s3 = [] then Raises AttributeError s3
                      else add_new_labels env (check_unique (add_new_frames s3)))))"
    unfolding browseDir_def s1_def imlist_def Let_def by (simp add: dlg)
  obtain rel where rel: "relative_names (index s1) = Some rel"
    using ret unfolding unfold by (cases "relative_names (index s1)") simp_all
  let ?s1 = "s1\<lparr>relativeimagenames := rel\<rparr>"
  have st: "stored_table ?s1 = Some t"
    using tab by (simp add: stored_table_def hdf_path_def s1_def)
  obtain s2 where s2: "read_existing ?s1 = Returns s2"
    using ret rel unfolding unfold by (cases "read_existing ?s1") simp_all
  have e2: "s2 = ?s1\<lparr>dataFrame := sort_index t, prev_enabled := True,
                       iter := first_unset (sort_index t) 0 (df_index (sort_index t))\<rparr>"
    using s2 st by (simp add: read_existing_def Let_def split: if_splits)
  have i2: "\<not> length (index s2) \<le> iter s2"
    using ret rel s2 unfolding unfold by (auto split: if_splits)
  let ?s2 = "s2\<lparr>img := index s2 ! iter s2\<rparr>"
  obtain s3 where s3: "getColorIndices ?s2 = Returns s3"
    using ret rel s2 i2 unfolding unfold by (cases "getColorIndices ?s2") simp_all
  have e3: "s3 = ?s2"
    using getColorIndices_returns [OF s3] .
  have st3: "stored_table s3 = Some t"
    using tab by (simp add: e3 e2 stored_table_def hdf_path_def s1_def)
  have last: "add_new_labels env (check_unique (add_new_frames s3)) = Returns s'"
    using ret rel s2 i2 s3 st3 unfolding unfold by simp
  have f3: "scorer s3 = ?sc" "bodyparts s3 = ?bps" "dataFrame s3 = sort_index t"
    by (simp_all add: e3 e2 s1_def)
  let ?s5 = "add_new_frames s3"
  let ?s6 = "check_unique ?s5"
  have f6: "scorer ?s6 = ?sc" "bodyparts ?s6 = ?bps" "dataFrame ?s6 = dataFrame ?s5"
    by (simp_all add: check_unique_fields add_new_frames_fields f3)
  let ?new = "filter (\<lambda>x. x \<notin> labels_of (dataFrame ?s5)) ?bps"
  have fin: "dataFrame s' = nan_frames (relativeimagenames ?s6) ?sc ?new (dataFrame ?s5)"
    using add_new_labels_table [OF last] by (simp add: f6 labels_of_def)
  have ext3: "extends t (dataFrame s3)"
    by (simp add: f3 extends_sort_index)
  have ext5: "extends t (dataFrame ?s5)"
    using add_new_frames_extends [OF ext3] .
  have lab3: "labels_of (dataFrame s3) = labels_of t"
    by (simp add: f3 labels_of_def sort_index_def)
  have lab5: "labels_of t \<subseteq> labels_of (dataFrame ?s5)"
    "labels_of (dataFrame ?s5) \<subseteq> labels_of t \<union> set ?bps"
    using add_new_frames_labels [of s3] lab3 by (simp_all add: f3(2))
  have "\<forall>bp\<in>set ?new. bp \<notin> (\<lambda>c. fst (snd c)) ` set (df_columns t)"
    using lab5(1) by (auto simp add: labels_of_def)
  then have ext: "extends t (dataFrame s')"
    unfolding fin using ext5 by (rule nan_frames_extends [rotated])
  have labs: "labels_of (dataFrame s') = labels_of t \<union> set ?bps"
    unfolding fin labels_of_nan_frames using lab5 by auto
  have bnew: "b \<notin> labels_of (dataFrame s3)"
    using new(2) unfolding lab3 by (simp add: labels_of_def)
  have unset: "unset_column (dataFrame s') (?sc, b, co)" if co: "co = ''x'' \<or> co = ''y''" for co
  proof (cases "b \<in> labels_of (dataFrame ?s5)")
    case True
    have "unset_column (dataFrame ?s5) (scorer s3, b, co)"
      using add_new_frames_unset [of b s3 co] new(1) bnew co True by (simp add: f3)
    then show ?thesis
      unfolding fin using nan_frames_unset_kept by (simp add: f3)
  next
    case False
    then have "b \<in> set ?new"
      using new(1) by simp
    then show ?thesis
      unfolding fin using nan_frames_unset_new co by blast
  qed
  have ux: "unset_column (dataFrame s') (?sc, b, ''x'')" and uy: "unset_column (dataFrame s') (?sc, b, ''y'')"
    using unset by simp_all
  show ?thesis
    using ux uy ext labs by (simp add: unset_column_def extends_def labels_of_def)
qed


theorem browseDir_new_bodypart_witness:
  "returned (browseDir env_new start2) \<and>
   chosen env_new = Some ''/p/labeled-data/v'' \<and>
   files start2 ''/p/labeled-data/v/CollectedData_me.h5'' = Some (Table table2) \<and>
   cfg_bodyparts (cfg env_new) = [''nose'', ''tail'', ''paw''] \<and>
   (\<lambda>c. fst (snd c)) ` set (df_columns table2) = {''nose'', ''tail''} \<and>
   df_columns (dataFrame (final (browseDir env_new start2))) =
     [(''me'', ''nose'', ''x''), (''me'', ''nose'', ''y''),
      (''me'', ''tail'', ''x''), (''me'', ''tail'', ''y''),
      (''me'', ''paw'', ''x''), (''me'', ''paw'', ''y'')] \<and>
   df_values (dataFrame (final (browseDir env_new start2))) ''labeled-data/v/a.png'' (''me'', ''paw'', ''x'') = None \<and>
   df_values (dataFrame (final (browseDir env_new start2))) ''labeled-data/v/b.png'' (''me'', ''paw'', ''y'') = None \<and>
   df_values (dataFrame (final (browseDir env_new start2))) ''labeled-data/v/a.png'' (''me'', ''nose'', ''x'') = Some 1 \<and>
   df_values (dataFrame (final (browseDir env_new start2))) ''labeled-data/v/b.png'' (''me'', ''nose'', ''y'') = Some 6"
proof -
  have dlg: "chosen env_new = Some ''/p/labeled-data/v''"
    by (simp add: env_new_def)
  have path: "path_join (platform start2) ''/p/labeled-data/v'' (''CollectedData_'' @ cfg_scorer (cfg env_new) @ ''.h5'')
      = ''/p/labeled-data/v/CollectedData_me.h5''"
    by (simp add: path_join_def is_sep_def start2_def fresh_def env_new_def)
  have fl: "files start2 ''/p/labeled-data/v/CollectedData_me.h5'' = Some (Table table2)"
    by (simp add: start2_def fresh_def disk2_def)
  have tab: "files start2 (path_join (platform start2) ''/p/labeled-data/v''
                (''CollectedData_'' @ cfg_scorer (cfg env_new) @ ''.h5'')) = Some (Table table2)"
    unfolding path by (rule fl)
  have bps: "cfg_bodyparts (cfg env_new) = [''nose'', ''tail'', ''paw'']" "cfg_scorer (cfg env_new) = ''me''"
    by (simp_all add: env_new_def)
  have old: "(\<lambda>c. fst (snd c)) ` set (df_columns table2) = {''nose'', ''tail''}"
    by (auto simp add: table2_def)
  have new: "''paw'' \<in> set (cfg_bodyparts (cfg env_new))"
    "''paw'' \<notin> (\<lambda>c. fst (snd c)) ` set (df_columns table2)"
    unfolding old by (simp_all add: bps)
  have vals: "df_values table2 ''labeled-data/v/a.png'' (''me'', ''nose'', ''x'') = Some 1"
    "df_values table2 ''labeled-data/v/b.png'' (''me'', ''nose'', ''y'') = Some 6"
    "''labeled-data/v/a.png'' \<in> set (df_index table2)" "''labeled-data/v/b.png'' \<in> set (df_index table2)"
    "(''me'', ''nose'', ''x'') \<in> set (df_columns table2)" "(''me'', ''nose'', ''y'') \<in> set (df_columns table2)"
    by (simp_all add: table2_def)
  note t = browseDir_new_bodypart [OF returned_final [OF env_new_returns] dlg tab new, unfolded bps]
  have kept: "df_values (dataFrame (final (browseDir env_new start2))) ''labeled-data/v/a.png'' (''me'', ''nose'', ''x'') = Some 1"
    "df_values (dataFrame (final (browseDir env_new start2))) ''labeled-data/v/b.png'' (''me'', ''nose'', ''y'') = Some 6"
    using t vals by auto
  show ?thesis
    using env_new_returns dlg fl bps(1) old env_new_table(2) t kept by simp
qed

subsection \<open>C8: duplicate bodypart names\<close>

text \<open>
  C8. With the nose configured twice, \<open>browseDir\<close> prints the error and calls
  \<^verbatim>\<open>self.Close(True)\<close>, and then goes on: it returns after \<^verbatim>\<open>plot\<close> has created
  three point handles with their coordinate lists.
\<close>

theorem browseDir_duplicate_continues:
  "cfg_bodyparts (cfg env_duplicate) = [''nose'', ''tail'', ''nose''] \<and>
   returned (browseDir env_duplicate start2) \<and>
   closed (final (browseDir env_duplicate start2)) \<and>
   messages (final (browseDir env_duplicate start2)) =
     [Print ''Error - bodyparts must have unique labels! Please choose unique bodyparts in config.yaml file and try again. Quitting for now!''] \<and>
   drs start2 = [] \<and>
   drs (final (browseDir env_duplicate start2)) = [''nose'', ''tail'', ''nose''] \<and>
   length (updatedCoords (final (browseDir env_duplicate start2))) = 3 \<and>
   buttonCounter (final (browseDir env_duplicate start2)) = [0, 2]"
  by code_simp


end
